theory Spec2Isabelle
  imports Complex_Main "HOL-Library.Word" "HOL-Library.Log_Nat"
begin

section \<open>Machine types of the player\<close>

text \<open>
  The program is \<^verbatim>\<open>PlayingAudioExample/main.cpp\<close>. Its integers are the fixed-width
  types of CoreAudio: \<^verbatim>\<open>UInt32\<close> is a 32-bit word read unsigned, \<^verbatim>\<open>SInt64\<close> a 64-bit
  word read in two's complement (\<open>sint\<close>), \<^verbatim>\<open>OSStatus\<close> a 32-bit word read in two's
  complement. Pointers and opaque OS references are natural numbers, \<open>0\<close> being the
  null pointer.
\<close>

type_synonym UInt32 = "32 word"
type_synonym SInt64 = "64 word"
type_synonym OSStatus = "32 word"
type_synonym pointer = nat
type_synonym AudioQueueRef = pointer
type_synonym AudioQueueBufferRef = pointer
type_synonym AudioFileID = pointer

definition NULL :: pointer where
  "NULL = 0"

subsection \<open>Float64\<close>

text \<open>
  A \<^verbatim>\<open>Float64\<close> is an IEEE-754 binary64 value: a finite value is the rational number
  it denotes (\<open>Finite 0\<close> is the positive zero, \<open>NegZero\<close> the negative one), the
  others are the two infinities and not-a-number. Arithmetic computes the exact
  rational result and rounds it to the nearest binary64 value, ties to the even
  significand (the default rounding mode, which the program never changes).
\<close>

datatype Float64 = Finite rat | NegZero | PosInf | NegInf | NaN

definition pow2 :: "int \<Rightarrow> rat" where
  "pow2 e = (if 0 \<le> e then 2 ^ nat e else 1 / 2 ^ nat (- e))"

text \<open>For \<open>a > 0\<close>, \<open>ilog2 a\<close> is the exponent \<open>e\<close> with \<open>2\<^sup>e \<le> a < 2\<^sup>e\<^sup>+\<^sup>1\<close>.\<close>

definition ilog2 :: "rat \<Rightarrow> int" where
  "ilog2 a = (case quotient_of a of (n, d) \<Rightarrow>
     let e0 = bitlen n - bitlen d in if pow2 e0 \<le> a then e0 else e0 - 1)"

definition round_half_even :: "rat \<Rightarrow> int" where
  "round_half_even x = (let f = \<lfloor>x\<rfloor>; r = x - of_int f in
     if r < 1 / 2 then f else if 1 / 2 < r then f + 1 else if even f then f else f + 1)"

text \<open>
  \<open>fl64 neg x\<close> rounds the exact result \<open>x\<close> to binary64: 53 significant bits, the
  least exponent \<open>-1022\<close> (below it the spacing stays \<open>2\<^sup>-\<^sup>1\<^sup>0\<^sup>7\<^sup>4\<close>), overflow to an
  infinity when the rounded value needs an exponent above \<open>1023\<close>, that is from
  \<open>2\<^sup>1\<^sup>0\<^sup>2\<^sup>4\<close> on. \<open>neg\<close> is the sign of the exact result, which a zero result keeps.
\<close>

definition fl64 :: "bool \<Rightarrow> rat \<Rightarrow> Float64" where
  "fl64 neg x = (let e = max (ilog2 \<bar>x\<bar>) (- 1022);
                    ulp = pow2 (e - 52);
                    y = of_int (round_half_even (x / ulp)) * ulp
     in if 1024 \<le> ilog2 \<bar>y\<bar> then (if neg then NegInf else PosInf)
        else if y = 0 then (if neg then NegZero else Finite 0)
        else Finite y)"

fun signbit :: "Float64 \<Rightarrow> bool" where
  "signbit (Finite q) = (q < 0)"
| "signbit NegZero = True"
| "signbit PosInf = False"
| "signbit NegInf = True"
| "signbit NaN = False"

fun is_inf :: "Float64 \<Rightarrow> bool" where
  "is_inf PosInf = True"
| "is_inf NegInf = True"
| "is_inf _ = False"

fun is_zero :: "Float64 \<Rightarrow> bool" where
  "is_zero (Finite q) = (q = 0)"
| "is_zero NegZero = True"
| "is_zero _ = False"

fun finite_value :: "Float64 \<Rightarrow> rat" where
  "finite_value (Finite q) = q"
| "finite_value _ = 0"

definition f64_mul :: "Float64 \<Rightarrow> Float64 \<Rightarrow> Float64" where
  "f64_mul a b =
     (let neg = (signbit a \<noteq> signbit b) in
      if a = NaN \<or> b = NaN then NaN
      else if is_inf a \<or> is_inf b then
        (if is_zero a \<or> is_zero b then NaN else if neg then NegInf else PosInf)
      else fl64 neg (finite_value a * finite_value b))"

definition f64_div :: "Float64 \<Rightarrow> Float64 \<Rightarrow> Float64" where
  "f64_div a b =
     (let neg = (signbit a \<noteq> signbit b) in
      if a = NaN \<or> b = NaN then NaN
      else if is_inf a then (if is_inf b then NaN else if neg then NegInf else PosInf)
      else if is_inf b then (if neg then NegZero else Finite 0)
      else if is_zero b then
        (if is_zero a then NaN else if neg then NegInf else PosInf)
      else fl64 neg (finite_value a / finite_value b))"

text \<open>A \<^verbatim>\<open>UInt32\<close> converts to \<^verbatim>\<open>Float64\<close> exactly (32 bits fit in 53).\<close>

definition u32_to_f64 :: "UInt32 \<Rightarrow> Float64" where
  "u32_to_f64 w = Finite (of_nat (unat w))"

text \<open>
  The behaviours that C++ leaves undefined and that the sizing code can reach: a
  floating value whose truncation does not fit the unsigned target, and an integer
  division by zero.
\<close>

datatype fault = UndefinedConversion | DivisionByZero

definition truncate_toward_zero :: "rat \<Rightarrow> int" where
  "truncate_toward_zero q = (if 0 \<le> q then \<lfloor>q\<rfloor> else \<lceil>q\<rceil>)"

fun f64_to_u32 :: "Float64 \<Rightarrow> fault + UInt32" where
  "f64_to_u32 (Finite q) =
     (let t = truncate_toward_zero q in
      if 0 \<le> t \<and> t < 2 ^ 32 then Inr (word_of_int t) else Inl UndefinedConversion)"
| "f64_to_u32 NegZero = Inr 0"
| "f64_to_u32 _ = Inl UndefinedConversion"

section \<open>The stream format and the buffer sizing policy\<close>

text \<open>
  \<^verbatim>\<open>AudioStreamBasicDescription\<close>, as CoreAudioTypes.h declares it. The program reads
  \<^verbatim>\<open>mSampleRate\<close>, \<^verbatim>\<open>mBytesPerPacket\<close> and \<^verbatim>\<open>mFramesPerPacket\<close> and prints two more.
\<close>

record AudioStreamBasicDescription =
  mSampleRate :: Float64
  mFormatID :: UInt32
  mFormatFlags :: UInt32
  mBytesPerPacket :: UInt32
  mFramesPerPacket :: UInt32
  mBytesPerFrame :: UInt32
  mChannelsPerFrame :: UInt32
  mBitsPerChannel :: UInt32
  mReserved :: UInt32

text \<open>
  \<^verbatim>\<open>static const int maxBufferSize = 0x50000\<close> and \<^verbatim>\<open>minBufferSize = 0x4000\<close>: both are
  positive, so the comparisons with \<^verbatim>\<open>UInt32\<close> operands, which convert them to unsigned,
  compare these values.
\<close>

definition maxBufferSize :: UInt32 where
  "maxBufferSize = 0x50000"

definition minBufferSize :: UInt32 where
  "minBufferSize = 0x4000"

text \<open>
  Lines 146 to 160 of \<^verbatim>\<open>DeriveBufferSize\<close>: the size before the bounds are applied.
  With a fixed number of frames per packet the packet count for the duration is a
  \<^verbatim>\<open>Float64\<close>; it is multiplied by the packet size in \<^verbatim>\<open>Float64\<close> and the product is
  converted to \<^verbatim>\<open>UInt32\<close> by the assignment.
\<close>

definition DeriveBufferSize_unclamped ::
  "AudioStreamBasicDescription \<Rightarrow> UInt32 \<Rightarrow> Float64 \<Rightarrow> fault + UInt32" where
  "DeriveBufferSize_unclamped inDesc maxPacketSize seconds =
     (if mFramesPerPacket inDesc \<noteq> 0 then
        let numPacketsForTime =
              f64_mul (f64_div (mSampleRate inDesc) (u32_to_f64 (mFramesPerPacket inDesc)))
                      seconds
        in f64_to_u32 (f64_mul numPacketsForTime (u32_to_f64 maxPacketSize))
      else Inr (if maxBufferSize > maxPacketSize then maxBufferSize else maxPacketSize))"

text \<open>Lines 166 to 176: the upper bound, guarded by the packet size, else the lower bound.\<close>

definition DeriveBufferSize_bounds :: "UInt32 \<Rightarrow> UInt32 \<Rightarrow> UInt32" where
  "DeriveBufferSize_bounds outBufferSize maxPacketSize =
     (if outBufferSize > maxBufferSize \<and> outBufferSize > maxPacketSize then maxBufferSize
      else if outBufferSize < minBufferSize then minBufferSize
      else outBufferSize)"

text \<open>
  \<^verbatim>\<open>DeriveBufferSize\<close> returns the pair \<open>(outBufferSize, outNumPacketsToRead)\<close> that the
  source writes through its two out-parameters. Line 178 divides by \<open>maxPacketSize\<close>
  in \<^verbatim>\<open>UInt32\<close>; a zero divisor is undefined there.
\<close>

definition DeriveBufferSize ::
  "AudioStreamBasicDescription \<Rightarrow> UInt32 \<Rightarrow> Float64 \<Rightarrow> fault + (UInt32 \<times> UInt32)" where
  "DeriveBufferSize inDesc maxPacketSize seconds =
     (case DeriveBufferSize_unclamped inDesc maxPacketSize seconds of
        Inl f \<Rightarrow> Inl f
      | Inr raw \<Rightarrow>
          let outBufferSize = DeriveBufferSize_bounds raw maxPacketSize in
          if maxPacketSize = 0 then Inl DivisionByZero
          else Inr (outBufferSize, outBufferSize div maxPacketSize))"

section \<open>The player state and the operating system\<close>

text \<open>
  \<^verbatim>\<open>struct AQPlayerState\<close>, field by field. \<open>mBuffers\<close> is the array of
  \<open>kNumberBuffers\<close> buffer references; \<open>mPacketDescs\<close> is the pointer to the packet
  description array, \<open>NULL\<close> for constant-bit-rate data.
\<close>

definition kNumberBuffers :: nat where
  "kNumberBuffers = 3"

record AQPlayerState =
  mDataFormat :: AudioStreamBasicDescription
  mQueue :: AudioQueueRef
  mBuffers :: "AudioQueueBufferRef list"
  mAudioFile :: AudioFileID
  bufferByteSize :: UInt32
  mCurrentPacket :: SInt64
  mNumPacketsToRead :: UInt32
  mPacketDescs :: pointer
  mIsRunning :: bool

text \<open>
  The fields of \<^verbatim>\<open>AudioQueueBuffer\<close> (AudioQueue.h) that the program or the reader
  touches: the capacity, the data area and the number of valid bytes in it.
\<close>

record AudioQueueBuffer =
  mAudioDataBytesCapacity :: UInt32
  mAudioData :: "8 word list"
  mAudioDataByteSize :: UInt32

text \<open>
  What the program does to the outside is the sequence of its calls into AudioToolbox
  and the run loop and of its writes to the two output streams, in program order. A
  \<^verbatim>\<open>printf\<close> is recorded by its format string and its arguments (\<^verbatim>\<open>%d\<close> prints its
  argument as a signed \<^verbatim>\<open>int\<close>). The CoreFoundation URL helpers and
  \<^verbatim>\<open>malloc\<close>/\<^verbatim>\<open>free\<close> are not recorded.
\<close>

datatype printf_arg = ArgInt int | ArgStr string | ArgPtr pointer | ArgDouble Float64

datatype event =
    Stdout string "printf_arg list"
  | Stderr string "printf_arg list"
  | AssertionFailed string
  | AudioFileOpenURL string
  | AudioFileGetProperty_DataFormat AudioFileID
  | AudioFileGetProperty_PacketSizeUpperBound AudioFileID
  | AudioFileGetPropertyInfo_MagicCookieData AudioFileID
  | AudioFileGetProperty_MagicCookieData AudioFileID
  | AudioFileReadPacketData AudioFileID bool UInt32 pointer SInt64 UInt32 AudioQueueBufferRef
  | AudioFileClose AudioFileID
  | AudioQueueNewOutput AudioStreamBasicDescription
  | AudioQueueSetProperty_MagicCookie AudioQueueRef "8 word list"
  | AudioQueueAllocateBuffer AudioQueueRef UInt32
  | AudioQueueEnqueueBuffer AudioQueueRef AudioQueueBufferRef UInt32 pointer
  | AudioQueueSetParameter_Volume AudioQueueRef
  | AudioQueueStart AudioQueueRef
  | AudioQueueStop AudioQueueRef bool
  | AudioQueueDispose AudioQueueRef bool
  | CFRunLoopRunInMode

record World =
  aq :: AQPlayerState
  buffers :: "AudioQueueBufferRef \<Rightarrow> AudioQueueBuffer"
  trace :: "event list"

definition emit :: "event list \<Rightarrow> World \<Rightarrow> World" where
  "emit es w = w\<lparr>trace := trace w @ es\<rparr>"

definition newline :: string where
  "newline = [CHR 0x0A]"

text \<open>
  \<^verbatim>\<open>AudioFileReadPacketData\<close> belongs to the operating system. Its answer to a call
  with the file, the capacity in bytes, the description array, the starting packet and
  the number of packets asked for is the number of bytes and of packets it obtained and
  the content it leaves in the buffer's data area. The packet descriptions that it writes
  to the description array are read by the sink alone and are not represented. Buffer
  references handed to the callback are taken to be valid.
\<close>

record ReadResult =
  outNumBytes :: UInt32
  outNumPackets :: UInt32
  outData :: "8 word list"

type_synonym Reader = "AudioFileID \<Rightarrow> UInt32 \<Rightarrow> pointer \<Rightarrow> SInt64 \<Rightarrow> UInt32 \<Rightarrow> ReadResult"

section \<open>The refill callback\<close>

text \<open>
  \<^verbatim>\<open>HandleOutputBuffer(aqData, aq, buf)\<close>, lines 80 to 132. \<open>inAQ\<close> is the queue the
  callback is invoked for. The cursor is an \<^verbatim>\<open>SInt64\<close>; the packet count, a
  \<^verbatim>\<open>UInt32\<close>, is zero-extended before it is added, and the addition is the 64-bit one.
  \<open>readPackets\<close> is the answer of the reader to the call of lines 103 to 109.
\<close>

definition readPackets :: "Reader \<Rightarrow> AQPlayerState \<Rightarrow> ReadResult" where
  "readPackets rd data =
     rd (mAudioFile data) (bufferByteSize data) (mPacketDescs data) (mCurrentPacket data)
        (mNumPacketsToRead data)"

definition HandleOutputBuffer ::
  "Reader \<Rightarrow> World \<Rightarrow> AudioQueueRef \<Rightarrow> AudioQueueBufferRef \<Rightarrow> World" where
  "HandleOutputBuffer rd w inAQ buf =
     (let data = aq w in
      if \<not> mIsRunning data then w
      else
        let r = readPackets rd data;
            ioNumBytesReadFromFile = outNumBytes r;
            ioNumPackets = outNumPackets r;
            w1 = emit [AudioFileReadPacketData (mAudioFile data) False (bufferByteSize data)
                         (mPacketDescs data) (mCurrentPacket data) (mNumPacketsToRead data) buf,
                       Stdout (''read %d / %d bytes'' @ newline)
                         [ArgInt (sint ioNumBytesReadFromFile),
                          ArgInt (sint (bufferByteSize data))]]
                   (w\<lparr>buffers := (buffers w)(buf := (buffers w buf)\<lparr>mAudioData := outData r\<rparr>)\<rparr>)
        in
          if ioNumPackets > 0 then
            emit [AudioQueueEnqueueBuffer inAQ buf
                    (if mPacketDescs data \<noteq> NULL then ioNumPackets else 0)
                    (mPacketDescs data)]
              (w1\<lparr>buffers := (buffers w1)
                       (buf := (buffers w1 buf)\<lparr>mAudioDataByteSize := ioNumBytesReadFromFile\<rparr>),
                   aq := data\<lparr>mCurrentPacket := mCurrentPacket data + ucast ioNumPackets\<rparr>\<rparr>)
          else
            emit [AudioQueueStop inAQ False] (w1\<lparr>aq := data\<lparr>mIsRunning := False\<rparr>\<rparr>))"

text \<open>
  The sink invokes the callback once for each buffer it has finished with; a batch of
  such invocations, in order, on the queue of the session.
\<close>

fun refills :: "Reader \<Rightarrow> World \<Rightarrow> AudioQueueBufferRef list \<Rightarrow> World" where
  "refills rd w [] = w"
| "refills rd w (buf # bufs) = refills rd (HandleOutputBuffer rd w (mQueue (aq w)) buf) bufs"

text \<open>
  The number of packets the next invocation of the callback obtains from the source in
  world \<open>w\<close>: none when the session is not running, since the source is not read then.
\<close>

definition packetsObtained :: "Reader \<Rightarrow> World \<Rightarrow> nat" where
  "packetsObtained rd w =
     (if mIsRunning (aq w) then unat (outNumPackets (readPackets rd (aq w))) else 0)"

fun packetsRead :: "Reader \<Rightarrow> World \<Rightarrow> AudioQueueBufferRef list \<Rightarrow> nat list" where
  "packetsRead rd w [] = []"
| "packetsRead rd w (buf # bufs) =
     packetsObtained rd w # packetsRead rd (HandleOutputBuffer rd w (mQueue (aq w)) buf) bufs"

section \<open>Initialisation and the driver\<close>

text \<open>
  The answers of the operating system to the calls of one run: the status and the
  out-parameter of each call whose result the program uses, the reader, and, for every
  time the run loop is entered, the buffers for which the sink invokes the callback
  during it. \<open>NDEBUG\<close> tells whether \<^verbatim>\<open>assert\<close> is compiled out.
\<close>

record Env =
  NDEBUG :: bool
  urlString :: string
  openURL_status :: OSStatus
  openURL_file :: AudioFileID
  dataFormat :: AudioStreamBasicDescription
  newOutput_status :: OSStatus
  newOutput_queue :: AudioQueueRef
  packetSizeUpperBound :: UInt32
  malloc_packetDescs :: pointer
  magicCookieInfo_status :: OSStatus
  magicCookie :: "8 word list"
  allocateBuffer :: "nat \<Rightarrow> AudioQueueBufferRef"
  reader :: Reader
  start_status :: OSStatus
  callbacks :: "AudioQueueBufferRef list list"

text \<open>
  How the process ends: \<^verbatim>\<open>exit(n)\<close> or the return of \<open>n\<close> from \<^verbatim>\<open>main\<close>, the
  \<^verbatim>\<open>abort\<close> of a failed assertion, or a behaviour the language leaves undefined. A
  function that can end the process returns \<open>Inl\<close> of the outcome and the world at
  that moment, and \<open>Inr\<close> of the world when it returns to its caller.
\<close>

datatype outcome = Exit int | Aborted | Undefined fault

type_synonym step = "(outcome \<times> World) + World"

definition and_then :: "step \<Rightarrow> (World \<Rightarrow> step) \<Rightarrow> step" where
  "and_then r f = (case r of Inl t \<Rightarrow> Inl t | Inr w \<Rightarrow> f w)"

definition noErr :: OSStatus where
  "noErr = 0"

text \<open>
  A four-character code is the 32-bit number whose bytes, most significant first, are
  the four characters. The result codes are those of AudioFile.h and CoreAudioTypes.h.
\<close>

definition FourCC :: "string \<Rightarrow> OSStatus" where
  "FourCC s = foldl (\<lambda>acc c. acc * 256 + of_nat (of_char c)) 0 s"

definition kAudioFileUnspecifiedError :: OSStatus where
  "kAudioFileUnspecifiedError = FourCC ''wht?''"
definition kAudioFileUnsupportedFileTypeError :: OSStatus where
  "kAudioFileUnsupportedFileTypeError = FourCC ''typ?''"
definition kAudioFileUnsupportedDataFormatError :: OSStatus where
  "kAudioFileUnsupportedDataFormatError = FourCC ''fmt?''"
definition kAudioFileUnsupportedPropertyError :: OSStatus where
  "kAudioFileUnsupportedPropertyError = FourCC ''pty?''"
definition kAudioFileBadPropertySizeError :: OSStatus where
  "kAudioFileBadPropertySizeError = FourCC ''!siz''"
definition kAudioFilePermissionsError :: OSStatus where
  "kAudioFilePermissionsError = FourCC ''prm?''"
definition kAudioFileNotOptimizedError :: OSStatus where
  "kAudioFileNotOptimizedError = FourCC ''optm''"
definition kAudioFileInvalidChunkError :: OSStatus where
  "kAudioFileInvalidChunkError = FourCC ''chk?''"
definition kAudioFileDoesNotAllow64BitDataSizeError :: OSStatus where
  "kAudioFileDoesNotAllow64BitDataSizeError = FourCC ''off?''"
definition kAudioFileInvalidPacketOffsetError :: OSStatus where
  "kAudioFileInvalidPacketOffsetError = FourCC ''pck?''"
definition kAudioFileInvalidFileError :: OSStatus where
  "kAudioFileInvalidFileError = FourCC ''dta?''"
definition kAudioFileOperationNotSupportedError :: OSStatus where
  "kAudioFileOperationNotSupportedError = 0x6F703F3F"
definition kAudioFileNotOpenError :: OSStatus where
  "kAudioFileNotOpenError = - 38"
definition kAudioFileEndOfFileError :: OSStatus where
  "kAudioFileEndOfFileError = - 39"
definition kAudioFilePositionError :: OSStatus where
  "kAudioFilePositionError = - 40"
definition kAudio_FileNotFoundError :: OSStatus where
  "kAudio_FileNotFoundError = - 43"

text \<open>
  The \<^verbatim>\<open>switch\<close> of \<^verbatim>\<open>PrintResultCodes\<close>, lines 189 to 238: the message of each code that
  has a \<^verbatim>\<open>case\<close>; every other code, \<open>noErr\<close> among them, takes the \<^verbatim>\<open>default\<close>.
\<close>

definition PrintResultCodes_cases :: "(OSStatus \<times> string) list" where
  "PrintResultCodes_cases =
     [(kAudioFileUnspecifiedError, ''File unspecified''),
      (kAudioFileUnsupportedFileTypeError, ''Unsupported file type''),
      (kAudioFileUnsupportedDataFormatError, ''Unsupported data format''),
      (kAudioFileUnsupportedPropertyError, ''Unsupported property''),
      (kAudioFileBadPropertySizeError, ''Bad property size''),
      (kAudioFileNotOptimizedError, ''File not optimized''),
      (kAudioFileInvalidChunkError, ''Invalid chunk''),
      (kAudioFileDoesNotAllow64BitDataSizeError, ''File does not allow 64 bit data size''),
      (kAudioFileInvalidPacketOffsetError, ''Invalid packet offset''),
      (kAudioFileInvalidFileError, ''Invalid file''),
      (kAudioFileOperationNotSupportedError, ''Operation not supported''),
      (kAudioFileNotOpenError, ''File not open''),
      (kAudioFileEndOfFileError, ''End of file''),
      (kAudioFilePositionError, ''Position''),
      (kAudio_FileNotFoundError, ''File not found'')]"

text \<open>
  \<^verbatim>\<open>PrintResultCodes\<close>: a code with a \<^verbatim>\<open>case\<close> prints its message and reaches
  \<^verbatim>\<open>assert(false)\<close>, which aborts the process unless assertions are compiled out; the
  \<^verbatim>\<open>default\<close> returns at once.
\<close>

definition PrintResultCodes :: "bool \<Rightarrow> OSStatus \<Rightarrow> World \<Rightarrow> step" where
  "PrintResultCodes ndebug code w =
     (case map_of PrintResultCodes_cases code of
        None \<Rightarrow> Inr w
      | Some msg \<Rightarrow>
          let w1 = emit [Stdout (msg @ newline) []] w in
          if ndebug then Inr w1
          else Inl (Aborted, emit [AssertionFailed ''false''] w1))"

text \<open>Decimal digits of \<^verbatim>\<open>sprintf(str, "%d", (int)error)\<close>.\<close>

fun decimal_nat :: "nat \<Rightarrow> string" where
  "decimal_nat n =
     (if n < 10 then [''0123456789'' ! n]
      else decimal_nat (n div 10) @ [''0123456789'' ! (n mod 10)])"

definition decimal_int :: "int \<Rightarrow> string" where
  "decimal_int i = (if i < 0 then CHR ''-'' # decimal_nat (nat (- i)) else decimal_nat (nat i))"

definition isprint :: "8 word \<Rightarrow> bool" where
  "isprint c = (0x20 \<le> c \<and> c \<le> 0x7E)"

text \<open>
  The text that \<^verbatim>\<open>CheckError\<close> builds in \<^verbatim>\<open>str\<close>, lines 298 to 306: the four bytes of
  the code, most significant first, between apostrophes when all four are printable,
  its decimal value otherwise.
\<close>

definition CheckError_str :: "OSStatus \<Rightarrow> string" where
  "CheckError_str error =
     (let b1 = (ucast (drop_bit 24 error) :: 8 word);
          b2 = (ucast (drop_bit 16 error) :: 8 word);
          b3 = (ucast (drop_bit 8 error) :: 8 word);
          b4 = (ucast error :: 8 word)
      in if isprint b1 \<and> isprint b2 \<and> isprint b3 \<and> isprint b4
         then [CHR 0x27, char_of (unat b1), char_of (unat b2), char_of (unat b3), char_of (unat b4), CHR 0x27]
         else decimal_int (sint error))"

definition CheckError :: "OSStatus \<Rightarrow> string \<Rightarrow> World \<Rightarrow> step" where
  "CheckError error operation w =
     (if error = noErr then Inr w
      else Inl (Exit 1,
                emit [Stderr (''Error: %s (%s)'' @ newline)
                        [ArgStr operation, ArgStr (CheckError_str error)]] w))"

definition AQPlayerState_InitAudioFile :: "Env \<Rightarrow> string \<Rightarrow> World \<Rightarrow> step" where
  "AQPlayerState_InitAudioFile env filePath w =
     (let w1 = emit [Stdout (''filename: %s'' @ newline) [ArgStr filePath],
                     Stdout (''%s'' @ newline) [ArgStr (urlString env)],
                     AudioFileOpenURL filePath,
                     Stdout (''mAudioFile: %p'' @ newline) [ArgPtr (openURL_file env)]]
                (w\<lparr>aq := (aq w)\<lparr>mAudioFile := openURL_file env\<rparr>\<rparr>)
      in PrintResultCodes (NDEBUG env) (openURL_status env) w1)"

definition PrintBasicDescription :: "AudioStreamBasicDescription \<Rightarrow> World \<Rightarrow> World" where
  "PrintBasicDescription fmt w =
     emit [Stdout (''Bits per channel  : %d'' @ newline) [ArgInt (sint (mBitsPerChannel fmt))],
           Stdout (''Sample rate       : %lf.3'' @ newline) [ArgDouble (mSampleRate fmt)],
           Stdout (''Channels per frame: %d'' @ newline) [ArgInt (sint (mChannelsPerFrame fmt))],
           Stdout (''Frames per packet : %d'' @ newline) [ArgInt (sint (mFramesPerPacket fmt))],
           Stdout (''Bytes per packet  : %d'' @ newline) [ArgInt (sint (mBytesPerPacket fmt))]] w"

definition AQPlayerState_InitBasicDescription :: "Env \<Rightarrow> World \<Rightarrow> World" where
  "AQPlayerState_InitBasicDescription env w =
     PrintBasicDescription (dataFormat env)
       (emit [AudioFileGetProperty_DataFormat (mAudioFile (aq w))]
          (w\<lparr>aq := (aq w)\<lparr>mDataFormat := dataFormat env\<rparr>\<rparr>))"

definition AQPlayerState_InitOutputQueue :: "Env \<Rightarrow> World \<Rightarrow> step" where
  "AQPlayerState_InitOutputQueue env w =
     (let w1 = emit [Stdout ''aq->mQueue: %p -> '' [ArgPtr (mQueue (aq w))],
                     AudioQueueNewOutput (mDataFormat (aq w)),
                     Stdout (''%p'' @ newline) [ArgPtr (newOutput_queue env)]]
                (w\<lparr>aq := (aq w)\<lparr>mQueue := newOutput_queue env\<rparr>\<rparr>)
      in CheckError (newOutput_status env) ''AudioQueueNewOutput '' w1)"

text \<open>
  \<^verbatim>\<open>AQPlayerState_InitSizes\<close> calls \<^verbatim>\<open>DeriveBufferSize\<close> with half a second; the three
  lines that \<^verbatim>\<open>DeriveBufferSize\<close> prints (lines 180 to 182) come first.
\<close>

definition AQPlayerState_InitSizes :: "Env \<Rightarrow> World \<Rightarrow> step" where
  "AQPlayerState_InitSizes env w =
     (let maxPacketSize = packetSizeUpperBound env;
          w1 = emit [AudioFileGetProperty_PacketSizeUpperBound (mAudioFile (aq w))] w
      in case DeriveBufferSize (mDataFormat (aq w)) maxPacketSize (Finite (1 / 2)) of
           Inl f \<Rightarrow> Inl (Undefined f, w1)
         | Inr (outBufferSize, outNumPacketsToRead) \<Rightarrow>
             Inr (emit [Stdout (''maxPacketSize: %d'' @ newline) [ArgInt (sint maxPacketSize)],
                        Stdout (''outBufferSize: %d'' @ newline) [ArgInt (sint outBufferSize)],
                        Stdout (''numPacketsToRead: %d'' @ newline)
                          [ArgInt (sint outNumPacketsToRead)],
                        Stdout (''bufferByteSize: %d'' @ newline) [ArgInt (sint outBufferSize)],
                        Stdout (''mNumPacketsToRead: %d'' @ newline)
                          [ArgInt (sint outNumPacketsToRead)]]
                    (w1\<lparr>aq := (aq w1)\<lparr>bufferByteSize := outBufferSize,
                                        mNumPacketsToRead := outNumPacketsToRead\<rparr>\<rparr>)))"

definition isFormatVBR :: "AudioStreamBasicDescription \<Rightarrow> bool" where
  "isFormatVBR fmt = (mBytesPerPacket fmt = 0 \<or> mFramesPerPacket fmt = 0)"

definition AQPlayerState_AllocatePacketDescriptionsArray :: "Env \<Rightarrow> World \<Rightarrow> World" where
  "AQPlayerState_AllocatePacketDescriptionsArray env w =
     (if isFormatVBR (mDataFormat (aq w))
      then w\<lparr>aq := (aq w)\<lparr>mPacketDescs := malloc_packetDescs env\<rparr>\<rparr>
      else w\<lparr>aq := (aq w)\<lparr>mPacketDescs := NULL\<rparr>\<rparr>)"

definition AQPlayerState_MagicCookie :: "Env \<Rightarrow> World \<Rightarrow> World" where
  "AQPlayerState_MagicCookie env w =
     (let couldNotGetProperty = (magicCookieInfo_status env \<noteq> 0);
          w1 = emit [AudioFileGetPropertyInfo_MagicCookieData (mAudioFile (aq w))] w
      in if \<not> couldNotGetProperty then
           emit [Stdout (''Setting aq->mQueue's magic cookie property'' @ newline) [],
                 AudioFileGetProperty_MagicCookieData (mAudioFile (aq w)),
                 AudioQueueSetProperty_MagicCookie (mQueue (aq w)) (magicCookie env)] w1
         else emit [Stdout (''No magic cookie'' @ newline) []] w1)"

text \<open>
  One turn of the loop of \<^verbatim>\<open>AQPlayerState_AllocateBuffersAndPrime\<close>, lines 395 to 397:
  the sink allocates buffer \<open>k\<close> of the session's size, with no valid bytes yet, and
  stores its reference in \<open>mBuffers[k]\<close>; the callback is then called directly on it.
\<close>

definition AllocateBuffer_k :: "Env \<Rightarrow> nat \<Rightarrow> World \<Rightarrow> World" where
  "AllocateBuffer_k env k w =
     (let b = allocateBuffer env k in
      emit [AudioQueueAllocateBuffer (mQueue (aq w)) (bufferByteSize (aq w))]
        (w\<lparr>aq := (aq w)\<lparr>mBuffers := (mBuffers (aq w))[k := b]\<rparr>,
           buffers := (buffers w)
             (b := (buffers w b)\<lparr>mAudioDataBytesCapacity := bufferByteSize (aq w),
                                 mAudioDataByteSize := 0\<rparr>)\<rparr>))"

function AllocateBuffersAndPrime_loop :: "Env \<Rightarrow> nat \<Rightarrow> World \<Rightarrow> World" where
  "AllocateBuffersAndPrime_loop env k w =
     (if k < kNumberBuffers then
        let w1 = AllocateBuffer_k env k w in
        AllocateBuffersAndPrime_loop env (Suc k)
          (HandleOutputBuffer (reader env) w1 (mQueue (aq w1)) (mBuffers (aq w1) ! k))
      else w)"
  by pat_completeness auto
termination
  by (relation "measure (\<lambda>(env, k, w). kNumberBuffers - k)") auto

definition AQPlayerState_AllocateBuffersAndPrime :: "Env \<Rightarrow> World \<Rightarrow> World" where
  "AQPlayerState_AllocateBuffersAndPrime env w =
     AllocateBuffersAndPrime_loop env 0 (w\<lparr>aq := (aq w)\<lparr>mCurrentPacket := 0\<rparr>\<rparr>)"

definition AQPlayerState_SetGain :: "World \<Rightarrow> World" where
  "AQPlayerState_SetGain w = emit [AudioQueueSetParameter_Volume (mQueue (aq w))] w"

definition AQPlayerState_CleanUp :: "World \<Rightarrow> World" where
  "AQPlayerState_CleanUp w =
     emit [AudioQueueDispose (mQueue (aq w)) True, AudioFileClose (mAudioFile (aq w))] w"

definition AQPlayerState_Initialize :: "Env \<Rightarrow> string \<Rightarrow> World \<Rightarrow> step" where
  "AQPlayerState_Initialize env audioFileName w =
     and_then (AQPlayerState_InitAudioFile env audioFileName
                 (w\<lparr>aq := (aq w)\<lparr>mIsRunning := True\<rparr>\<rparr>))
       (\<lambda>w1. and_then (AQPlayerState_InitOutputQueue env
                         (AQPlayerState_InitBasicDescription env w1))
         (\<lambda>w2. and_then (AQPlayerState_InitSizes env w2)
           (\<lambda>w3. Inr (AQPlayerState_SetGain
                        (AQPlayerState_AllocateBuffersAndPrime env
                           (AQPlayerState_MagicCookie env
                              (AQPlayerState_AllocatePacketDescriptionsArray env w3)))))))"

text \<open>
  The \<^verbatim>\<open>do\<close>-\<^verbatim>\<open>while\<close> of \<^verbatim>\<open>main\<close>, lines 463 to 466: the run loop is entered, the sink
  invokes the callback for the buffers of this turn, and the loop goes on while
  \<open>mIsRunning\<close> holds. The turns are those the environment lists; \<open>None\<close> says that the
  session was still running when they were used up.
\<close>

fun runLoop :: "Reader \<Rightarrow> World \<Rightarrow> AudioQueueBufferRef list list \<Rightarrow> World option" where
  "runLoop rd w [] = None"
| "runLoop rd w (bufs # turns) =
     (let w1 = refills rd (emit [CFRunLoopRunInMode] w) bufs in
      if mIsRunning (aq w1) then runLoop rd w1 turns else Some w1)"

text \<open>\<^verbatim>\<open>memset(&aq, 0, sizeof(AQPlayerState))\<close>, and no output yet.\<close>

definition zeroFormat :: AudioStreamBasicDescription where
  "zeroFormat = \<lparr>mSampleRate = Finite 0, mFormatID = 0, mFormatFlags = 0, mBytesPerPacket = 0,
     mFramesPerPacket = 0, mBytesPerFrame = 0, mChannelsPerFrame = 0, mBitsPerChannel = 0,
     mReserved = 0\<rparr>"

definition initialWorld :: World where
  "initialWorld =
     \<lparr>aq = \<lparr>mDataFormat = zeroFormat, mQueue = NULL, mBuffers = replicate kNumberBuffers NULL,
            mAudioFile = NULL, bufferByteSize = 0, mCurrentPacket = 0, mNumPacketsToRead = 0,
            mPacketDescs = NULL, mIsRunning = False\<rparr>,
      buffers = (\<lambda>b. \<lparr>mAudioDataBytesCapacity = 0, mAudioData = [], mAudioDataByteSize = 0\<rparr>),
      trace = []\<rparr>"

definition audioFileName :: string where
  "audioFileName = ''/Users/robbytong/Documents/Xcode/PlayingAudioExample/PlayingAudioExample/over_everything.aac''"

text \<open>
  \<^verbatim>\<open>main\<close> up to the start of the queue, lines 449 to 461, and the whole of it. After
  the loop the run loop is entered once more for a second (a callback that arrives then
  finds \<open>mIsRunning\<close> false and returns at once), then the session is cleaned up and
  \<^verbatim>\<open>main\<close> returns 0.
\<close>

definition main_startup :: "Env \<Rightarrow> step" where
  "main_startup env =
     and_then (AQPlayerState_Initialize env audioFileName initialWorld)
       (\<lambda>w. CheckError (start_status env) ''AudioQueueStart''
              (emit [Stdout (''Starting audio queue: %p'' @ newline) [ArgPtr (mQueue (aq w))],
                     AudioQueueStart (mQueue (aq w))] w))"

definition main :: "Env \<Rightarrow> (outcome \<times> World) option" where
  "main env =
     (case main_startup env of
        Inl t \<Rightarrow> Some t
      | Inr w \<Rightarrow>
          (case runLoop (reader env) w (callbacks env) of
             None \<Rightarrow> None
           | Some w1 \<Rightarrow>
               Some (Exit 0, AQPlayerState_CleanUp (emit [CFRunLoopRunInMode] w1))))"

section \<open>Notions used to state the properties\<close>

text \<open>
  The descriptor pointer follows the format when it is null exactly for constant-bit-rate
  data. \<^verbatim>\<open>AQPlayerState_AllocatePacketDescriptionsArray\<close> sets it to null for
  constant-bit-rate data and to what \<^verbatim>\<open>malloc\<close> returns for variable-bit-rate data, and
  nothing later assigns it.
\<close>

definition descsFollowFormat :: "AQPlayerState \<Rightarrow> bool" where
  "descsFollowFormat s = ((mPacketDescs s = NULL) = (\<not> isFormatVBR (mDataFormat s)))"

text \<open>
  A rational is exact for \<^verbatim>\<open>Float64\<close> when rounding leaves it unchanged, that is when
  it is a binary64 value.
\<close>

definition exact64 :: "rat \<Rightarrow> bool" where
  "exact64 x = (fl64 False x = Finite x)"

text \<open>
  The size before clamping as the specification words it, over the rationals:
  \<open>ceil(sampleRate / framesPerPacket * targetSeconds) * maxPacketSize\<close>.
\<close>

definition spec_unclamped :: "rat \<Rightarrow> UInt32 \<Rightarrow> rat \<Rightarrow> UInt32 \<Rightarrow> int" where
  "spec_unclamped sampleRate framesPerPacket targetSeconds maxPacketSize =
     \<lceil>sampleRate / of_nat (unat framesPerPacket) * targetSeconds\<rceil> * int (unat maxPacketSize)"

text \<open>
  The range the specification gives for the final size: within the two bounds, except
  that a packet larger than the upper bound must fit.
\<close>

definition spec_range :: "UInt32 \<Rightarrow> UInt32 \<Rightarrow> bool" where
  "spec_range maxPacketSize outBufferSize =
     (if maxBufferSize < maxPacketSize then maxPacketSize \<le> outBufferSize
      else minBufferSize \<le> outBufferSize \<and> outBufferSize \<le> maxBufferSize)"

text \<open>
  One priming step on buffer \<open>k\<close>: its allocation and the direct call of the callback
  on it. \<open>primingReads\<close> lists the packets that the three priming calls obtain.
\<close>

definition primeStep :: "Env \<Rightarrow> nat \<Rightarrow> World \<Rightarrow> World" where
  "primeStep env k w =
     HandleOutputBuffer (reader env) (AllocateBuffer_k env k w) (mQueue (aq w))
       (allocateBuffer env k)"

definition primingReads :: "Env \<Rightarrow> World \<Rightarrow> nat list" where
  "primingReads env w =
     (let w0 = w\<lparr>aq := (aq w)\<lparr>mCurrentPacket := 0\<rparr>\<rparr>;
          w1 = primeStep env 0 w0;
          w2 = primeStep env 1 w1
      in [packetsObtained (reader env) (AllocateBuffer_k env 0 w0),
          packetsObtained (reader env) (AllocateBuffer_k env 1 w1),
          packetsObtained (reader env) (AllocateBuffer_k env 2 w2)])"

text \<open>
  The session as \<^verbatim>\<open>main\<close> has it when priming begins: zeroed by \<^verbatim>\<open>memset\<close>, then
  \<open>mIsRunning\<close>, the file, the format, the queue, the two sizes \<open>bs\<close> and \<open>n\<close> that
  \<^verbatim>\<open>DeriveBufferSize\<close> returned and the descriptor pointer, as the steps of
  \<^verbatim>\<open>AQPlayerState_Initialize\<close> before \<^verbatim>\<open>AQPlayerState_AllocateBuffersAndPrime\<close> assign them.
\<close>

definition sessionAtPriming :: "Env \<Rightarrow> UInt32 \<Rightarrow> UInt32 \<Rightarrow> AQPlayerState" where
  "sessionAtPriming env bs n =
     \<lparr>mDataFormat = dataFormat env, mQueue = newOutput_queue env,
      mBuffers = replicate kNumberBuffers NULL, mAudioFile = openURL_file env,
      bufferByteSize = bs, mCurrentPacket = 0, mNumPacketsToRead = n,
      mPacketDescs = (if isFormatVBR (dataFormat env) then malloc_packetDescs env else NULL),
      mIsRunning = True\<rparr>"

text \<open>
  The calls and the output of the program up to and including \<^verbatim>\<open>AudioQueueStart\<close>, when
  the program gets that far and the start succeeds.
\<close>

definition startupTrace :: "Env \<Rightarrow> event list option" where
  "startupTrace env = (case main_startup env of Inl t \<Rightarrow> None | Inr w \<Rightarrow> Some (trace w))"

text \<open>
  A source of \<open>packetCount\<close> packets is read within its length when a read that starts
  at a packet of the source obtains no more packets than are left from there.
\<close>

definition readsWithin :: "nat \<Rightarrow> Reader \<Rightarrow> bool" where
  "readsWithin packetCount rd =
     (\<forall>file numBytes descs start numPackets.
        0 \<le> sint start \<and> sint start \<le> int packetCount \<longrightarrow>
        int (unat (outNumPackets (rd file numBytes descs start numPackets))) \<le>
          int packetCount - sint start)"

text \<open>The buffers handed to the sink and the queues started, in the order of the trace.\<close>

fun enqueuedBuffers :: "event list \<Rightarrow> AudioQueueBufferRef list" where
  "enqueuedBuffers [] = []"
| "enqueuedBuffers (AudioQueueEnqueueBuffer q b n d # es) = b # enqueuedBuffers es"
| "enqueuedBuffers (e # es) = enqueuedBuffers es"

fun startedQueues :: "event list \<Rightarrow> AudioQueueRef list" where
  "startedQueues [] = []"
| "startedQueues (AudioQueueStart q # es) = q # startedQueues es"
| "startedQueues (e # es) = startedQueues es"

text \<open>
  What the operator can read as a diagnostic: a line on the error stream, the report of
  a failed assertion, or one of the messages of \<^verbatim>\<open>PrintResultCodes\<close>.
\<close>

definition PrintResultCodes_messages :: "string list" where
  "PrintResultCodes_messages = map (\<lambda>(c, m). m @ newline) PrintResultCodes_cases"

fun is_diagnostic :: "event \<Rightarrow> bool" where
  "is_diagnostic (Stderr f a) = True"
| "is_diagnostic (AssertionFailed e) = True"
| "is_diagnostic (Stdout f a) = (f \<in> set PrintResultCodes_messages)"
| "is_diagnostic _ = False"

definition diagnostics :: "event list \<Rightarrow> event list" where
  "diagnostics es = filter is_diagnostic es"

definition processOutcome :: "Env \<Rightarrow> outcome option" where
  "processOutcome env = map_option fst (main env)"

definition processDiagnostics :: "Env \<Rightarrow> event list option" where
  "processDiagnostics env = map_option (\<lambda>(oc, w). diagnostics (trace w)) (main env)"

text \<open>
  Opening the file lets the program go on when the status has no \<^verbatim>\<open>case\<close> in
  \<^verbatim>\<open>PrintResultCodes\<close> or when assertions are compiled out. \<open>errorLine\<close> is the line
  that \<^verbatim>\<open>CheckError\<close> writes.
\<close>

definition openPasses :: "Env \<Rightarrow> bool" where
  "openPasses env = (map_of PrintResultCodes_cases (openURL_status env) = None \<or> NDEBUG env)"

definition errorLine :: "string \<Rightarrow> OSStatus \<Rightarrow> event" where
  "errorLine operation error =
     Stderr (''Error: %s (%s)'' @ newline) [ArgStr operation, ArgStr (CheckError_str error)]"

section \<open>Sample formats, sources and runs\<close>

definition format_of :: "rat \<Rightarrow> UInt32 \<Rightarrow> UInt32 \<Rightarrow> AudioStreamBasicDescription" where
  "format_of sampleRate bytesPerPacket framesPerPacket =
     \<lparr>mSampleRate = Finite sampleRate, mFormatID = 0, mFormatFlags = 0,
      mBytesPerPacket = bytesPerPacket, mFramesPerPacket = framesPerPacket, mBytesPerFrame = 0,
      mChannelsPerFrame = 2, mBitsPerChannel = 0, mReserved = 0\<rparr>"

text \<open>
  A source of \<open>packetCount\<close> packets of \<open>packetBytes\<close> bytes each: a read from packet
  \<open>start\<close> obtains the packets asked for, or those that are left. \<open>silentReader\<close> is
  the source that never yields a packet.
\<close>

definition mockReader :: "nat \<Rightarrow> UInt32 \<Rightarrow> Reader" where
  "mockReader packetCount packetBytes = (\<lambda>file numBytes descs start numPackets.
     let k = min (unat numPackets) (packetCount - nat (sint start)) in
     \<lparr>outNumBytes = of_nat k * packetBytes, outNumPackets = of_nat k,
      outData = replicate (k * unat packetBytes) 0\<rparr>)"

definition silentReader :: Reader where
  "silentReader = (\<lambda>file numBytes descs start numPackets.
     \<lparr>outNumBytes = 0, outNumPackets = 0, outData = []\<rparr>)"

text \<open>
  A running session on 16-bit stereo PCM at 44.1 kHz (4 bytes and one frame per packet),
  with the sizes that \<^verbatim>\<open>DeriveBufferSize\<close> gives it.
\<close>

definition playingWorld :: World where
  "playingWorld =
     initialWorld\<lparr>aq := (aq initialWorld)\<lparr>mDataFormat := format_of 44100 4 1, mQueue := 1,
        mAudioFile := 2, bufferByteSize := 88200, mNumPacketsToRead := 22050,
        mIsRunning := True\<rparr>\<rparr>"

text \<open>
  A running session on a variable-bit-rate format, packets of 1024 frames at 44.1 kHz and
  of 768 bytes at most, with the sizes that \<^verbatim>\<open>DeriveBufferSize\<close> gives it, before the
  descriptor array is allocated.
\<close>

definition vbrWorld :: World where
  "vbrWorld =
     initialWorld\<lparr>aq := (aq initialWorld)\<lparr>mDataFormat := format_of 44100 0 1024, mQueue := 1,
        mAudioFile := 2, bufferByteSize := 16537, mNumPacketsToRead := 21,
        mIsRunning := True\<rparr>\<rparr>"

text \<open>A run on the PCM file in which every call succeeds and the source is empty.\<close>

definition sampleEnv :: Env where
  "sampleEnv =
     \<lparr>NDEBUG = False, urlString = ''file:///over_everything.aac'',
      openURL_status = noErr, openURL_file = 2,
      dataFormat = format_of 44100 4 1, newOutput_status = noErr, newOutput_queue = 1,
      packetSizeUpperBound = 4, malloc_packetDescs = NULL,
      magicCookieInfo_status = kAudioFileUnsupportedPropertyError, magicCookie = [],
      allocateBuffer = (\<lambda>k. 10 + k), reader = silentReader, start_status = noErr,
      callbacks = [[]]\<rparr>"

text \<open>The same run with a source of 100000 packets of 4 bytes.\<close>

definition streamEnv :: Env where
  "streamEnv = sampleEnv\<lparr>reader := mockReader 100000 4\<rparr>"

text \<open>
  The same run with a source of 22050 packets, which is what one buffer holds, and the
  run on the longer source in which the sink gives back two buffers in the first turn of
  the run loop and one in the second.
\<close>

definition shortEnv :: Env where
  "shortEnv = sampleEnv\<lparr>reader := mockReader 22050 4\<rparr>"

definition playEnv :: Env where
  "playEnv = sampleEnv\<lparr>reader := mockReader 100000 4, callbacks := [[10, 11], [12]]\<rparr>"

text \<open>
  A run on the variable-bit-rate file of \<open>vbrWorld\<close> in which \<^verbatim>\<open>malloc\<close> returns null for
  the descriptor array.
\<close>

definition vbrEnv :: Env where
  "vbrEnv = sampleEnv\<lparr>dataFormat := format_of 44100 0 1024, packetSizeUpperBound := 768,
     malloc_packetDescs := NULL, reader := mockReader 1000 768\<rparr>"

section \<open>Properties of the buffer sizing policy\<close>

text \<open>
  The equation of the priming loop is recursive without a pattern; it is applied where a
  proof asks for it, not by the simplifier on its own.
\<close>

declare AllocateBuffersAndPrime_loop.simps [simp del]

lemma DeriveBufferSize_bounds_lower: "0x4000 \<le> DeriveBufferSize_bounds raw mps"
  unfolding DeriveBufferSize_bounds_def maxBufferSize_def minBufferSize_def
  by (simp add: not_less)

lemma DeriveBufferSize_bounds_upper:
  "DeriveBufferSize_bounds raw mps \<le> 0x50000 \<or>
   (0x50000 < mps \<and> DeriveBufferSize_bounds raw mps \<le> mps)"
  unfolding DeriveBufferSize_bounds_def maxBufferSize_def minBufferSize_def
  by (auto simp: not_less)

text \<open>
  \<^verbatim>\<open>DeriveBufferSize\<close> returns exactly when the conversion of the first stage is defined
  and the packet size is not zero.
\<close>

lemma DeriveBufferSize_Inr_iff:
  "DeriveBufferSize d mps s = Inr (bs, n) \<longleftrightarrow>
     (\<exists>raw. DeriveBufferSize_unclamped d mps s = Inr raw \<and> mps \<noteq> 0 \<and>
        bs = DeriveBufferSize_bounds raw mps \<and> n = bs div mps)"
  unfolding DeriveBufferSize_def by (auto split: sum.splits simp: Let_def)

lemma DeriveBufferSize_variable:
  assumes "mFramesPerPacket d = 0" and "mps \<noteq> 0"
  shows "\<exists>bs n. DeriveBufferSize d mps s = Inr (bs, n)"
  using assms by (simp add: DeriveBufferSize_def DeriveBufferSize_unclamped_def Let_def)

text \<open>
  The fixed-rate branch, when the three roundings are known: the quotient, the packet
  count and the product.
\<close>

lemma unclamped_fixed_eval:
  assumes "mFramesPerPacket d \<noteq> 0" and "mSampleRate d = Finite r"
    and "0 \<le> r" and "0 \<le> s" and "0 \<le> q" and "0 \<le> p"
    and "fl64 False (r / of_nat (unat (mFramesPerPacket d))) = Finite q"
    and "fl64 False (q * s) = Finite p"
    and "fl64 False (p * of_nat (unat mps)) = Finite t"
  shows "DeriveBufferSize_unclamped d mps (Finite s) = f64_to_u32 (Finite t)"
proof -
  have fpp: "unat (mFramesPerPacket d) \<noteq> 0"
    using assms(1) by (simp add: unat_eq_0)
  have "f64_div (mSampleRate d) (u32_to_f64 (mFramesPerPacket d)) = Finite q"
    using assms fpp by (simp add: f64_div_def u32_to_f64_def not_less del: of_nat_unat)
  moreover have "f64_mul (Finite q) (Finite s) = Finite p"
    using assms by (simp add: f64_mul_def not_less)
  moreover have "f64_mul (Finite p) (u32_to_f64 mps) = Finite t"
    using assms by (simp add: f64_mul_def u32_to_f64_def not_less del: of_nat_unat)
  ultimately show ?thesis
    using assms(1) by (simp add: DeriveBufferSize_unclamped_def)
qed

subsection \<open>Sample evaluations\<close>

text \<open>PCM at 44.1 kHz, one frame and 4 bytes per packet, half a second.\<close>

lemma pcm_roundings:
  "fl64 False 44100 = Finite 44100" "fl64 False 22050 = Finite 22050"
  "fl64 False 88200 = Finite 88200" "fl64 False 45158400 = Finite 45158400"
  by code_simp+

lemma pcm_unclamped:
  "DeriveBufferSize_unclamped (format_of 44100 4 1) 4 (Finite (1 / 2)) = Inr 88200"
proof -
  have "DeriveBufferSize_unclamped (format_of 44100 4 1) 4 (Finite (1 / 2)) =
          f64_to_u32 (Finite 88200)"
    by (rule unclamped_fixed_eval[where r = 44100 and q = 44100 and p = 22050])
       (simp_all add: format_of_def pcm_roundings)
  then show ?thesis by (simp add: truncate_toward_zero_def)
qed

lemma pcm_sizes:
  "DeriveBufferSize (format_of 44100 4 1) 4 (Finite (1 / 2)) = Inr (88200, 22050)"
  by (simp add: DeriveBufferSize_def pcm_unclamped DeriveBufferSize_bounds_def maxBufferSize_def
      minBufferSize_def)

text \<open>The scenario of the specification: the same format with packets of 2048 bytes.\<close>

lemma scenario_sizes:
  "DeriveBufferSize (format_of 44100 4 1) 2048 (Finite (1 / 2)) = Inr (0x50000, 160)"
proof -
  have "DeriveBufferSize_unclamped (format_of 44100 4 1) 2048 (Finite (1 / 2)) =
          f64_to_u32 (Finite 45158400)"
    by (rule unclamped_fixed_eval[where r = 44100 and q = 44100 and p = 22050])
       (simp_all add: format_of_def pcm_roundings)
  then have "DeriveBufferSize_unclamped (format_of 44100 4 1) 2048 (Finite (1 / 2)) =
               Inr 45158400"
    by (simp add: truncate_toward_zero_def)
  then show ?thesis
    by (simp add: DeriveBufferSize_def DeriveBufferSize_bounds_def maxBufferSize_def
        minBufferSize_def)
qed

text \<open>Packets of 1024 frames at 44.1 kHz, 768 bytes at most: 21.533203125 packets.\<close>

lemma aac_unclamped:
  "DeriveBufferSize_unclamped (format_of 44100 0 1024) 768 (Finite (1 / 2)) = Inr 16537"
proof -
  have 1: "fl64 False (11025 / 256) = Finite (11025 / 256)" by code_simp
  have 2: "fl64 False (11025 / 512) = Finite (11025 / 512)" by code_simp
  have 3: "fl64 False (33075 / 2) = Finite (33075 / 2)" by code_simp
  have "DeriveBufferSize_unclamped (format_of 44100 0 1024) 768 (Finite (1 / 2)) =
          f64_to_u32 (Finite (33075 / 2))"
    by (rule unclamped_fixed_eval[where r = 44100 and q = "11025 / 256" and p = "11025 / 512"])
       (simp_all add: format_of_def 1 2 3)
  moreover have "\<lfloor>33075 / 2 :: rat\<rfloor> = 16537"
    by (rule floor_unique) simp_all
  ultimately show ?thesis by (simp add: truncate_toward_zero_def)
qed

lemma aac_sizes:
  "DeriveBufferSize (format_of 44100 0 1024) 768 (Finite (1 / 2)) = Inr (16537, 21)"
  by (simp add: DeriveBufferSize_def aac_unclamped DeriveBufferSize_bounds_def maxBufferSize_def
      minBufferSize_def)

text \<open>Packets of 4096 frames at 8 kHz: 0.9765625 packets in half a second.\<close>

lemma long_packets_unclamped:
  "DeriveBufferSize_unclamped (format_of 8000 0 4096) mps (Finite (1 / 2)) =
     f64_to_u32 (f64_mul (Finite (125 / 128)) (u32_to_f64 mps))"
proof -
  have 1: "fl64 False (125 / 64) = Finite (125 / 64)" by code_simp
  have 2: "fl64 False (125 / 128) = Finite (125 / 128)" by code_simp
  have "f64_div (Finite 8000) (u32_to_f64 4096) = Finite (125 / 64)"
    using 1 by (simp add: f64_div_def u32_to_f64_def)
  moreover have "f64_mul (Finite (125 / 64)) (Finite (1 / 2)) = Finite (125 / 128)"
    using 2 by (simp add: f64_mul_def)
  ultimately show ?thesis
    by (simp add: DeriveBufferSize_unclamped_def format_of_def)
qed

lemma long_packets_sizes:
  "DeriveBufferSize (format_of 8000 0 4096) 24576 (Finite (1 / 2)) = Inr (24000, 0)"
proof -
  have "fl64 False 24000 = Finite 24000" by code_simp
  then have "DeriveBufferSize_unclamped (format_of 8000 0 4096) 24576 (Finite (1 / 2)) =
               Inr 24000"
    by (simp add: long_packets_unclamped f64_mul_def u32_to_f64_def truncate_toward_zero_def)
  then show ?thesis
    by (simp add: DeriveBufferSize_def DeriveBufferSize_bounds_def maxBufferSize_def
        minBufferSize_def)
qed

lemma huge_packets_sizes:
  "DeriveBufferSize (format_of 8000 0 4096) 0x100000 (Finite (1 / 2)) = Inr (1024000, 0)"
proof -
  have "fl64 False 1024000 = Finite 1024000" by code_simp
  then have "DeriveBufferSize_unclamped (format_of 8000 0 4096) 0x100000 (Finite (1 / 2)) =
               Inr 1024000"
    by (simp add: long_packets_unclamped f64_mul_def u32_to_f64_def truncate_toward_zero_def)
  then show ?thesis
    by (simp add: DeriveBufferSize_def DeriveBufferSize_bounds_def maxBufferSize_def
        minBufferSize_def)
qed

text \<open>A format without a fixed number of frames per packet, packets up to 4000000 bytes.\<close>

lemma variable_sizes:
  "DeriveBufferSize (format_of 44100 0 0) 4000000 (Finite (1 / 2)) = Inr (4000000, 1)"
  by (simp add: DeriveBufferSize_def DeriveBufferSize_unclamped_def DeriveBufferSize_bounds_def
      maxBufferSize_def minBufferSize_def format_of_def)

text \<open>
  The same two packet sizes as above on a format without a fixed number of frames per
  packet: the branch of line 159 takes the larger of the upper bound and the packet size.
\<close>

lemma variable_long_sizes:
  "DeriveBufferSize (format_of 8000 0 0) 24576 (Finite (1 / 2)) = Inr (0x50000, 13)"
  "DeriveBufferSize (format_of 8000 0 0) 0x100000 (Finite (1 / 2)) = Inr (0x100000, 1)"
  by (simp_all add: DeriveBufferSize_def DeriveBufferSize_unclamped_def
      DeriveBufferSize_bounds_def maxBufferSize_def minBufferSize_def format_of_def)

subsection \<open>Packets per buffer\<close>

text \<open>
  Claim C3: for every pair that the sizing policy accepts,
  \<open>packetsPerBuffer = floor(bufferSize / maxPacketSize)\<close> and it is at least 1, so that no
  input makes the policy return 0 packets per buffer. The program does not keep the second
  half. With packets of 4096 frames at 8 kHz and a packet size of 24576 bytes, half a
  second is less than one packet: \<^verbatim>\<open>DeriveBufferSize\<close> returns a size of 24000 bytes,
  smaller than one packet, and 0 packets per buffer. On the same packet size the branch
  for formats without a fixed number of frames per packet returns a size that holds 13
  packets: that branch takes the packet size into account and the fixed-rate branch does
  not.
\<close>

theorem DeriveBufferSize_zero_packets:
  "mFramesPerPacket (format_of 8000 0 4096) = 4096
   \<and> DeriveBufferSize (format_of 8000 0 4096) 24576 (Finite (1 / 2)) = Inr (24000, 0)
   \<and> (24000 :: UInt32) < 24576
   \<and> DeriveBufferSize (format_of 8000 0 0) 24576 (Finite (1 / 2)) = Inr (0x50000, 13)"
  using long_packets_sizes variable_long_sizes(1) by (simp add: format_of_def)

text \<open>
  What holds of the packet count on every input: whenever the policy returns,
  \<open>packetsPerBuffer\<close> is the floor of \<open>bufferSize / maxPacketSize\<close>; it is at least 1
  exactly when the packet size does not exceed the buffer size, which is so for every
  packet size up to the lower bound \<open>0x4000\<close> and for every format without a fixed number
  of frames per packet.
\<close>

lemma packetsPerBuffer_floor:
  assumes "DeriveBufferSize d mps s = Inr (bs, n)"
  shows "unat n = unat bs div unat mps \<and> (1 \<le> n) = (mps \<le> bs)
       \<and> (mps \<le> 0x4000 \<longrightarrow> 1 \<le> n) \<and> (mFramesPerPacket d = 0 \<longrightarrow> 1 \<le> n)"
proof -
  from assms obtain raw where raw: "DeriveBufferSize_unclamped d mps s = Inr raw"
    and mps: "mps \<noteq> 0" and bs: "bs = DeriveBufferSize_bounds raw mps" and n: "n = bs div mps"
    by (auto simp: DeriveBufferSize_Inr_iff)
  have pos: "0 < unat mps" using mps by (simp add: unat_gt_0)
  have u: "unat n = unat bs div unat mps" using n by (simp add: unat_div)
  have iff: "(1 \<le> n) = (mps \<le> bs)"
  proof -
    have "(1 \<le> n) = (1 \<le> unat n)" by (simp add: word_le_nat_alt)
    also have "\<dots> = (unat mps \<le> unat bs)"
      using pos u by (simp add: Suc_le_eq div_greater_zero_iff)
    finally show ?thesis by (simp add: word_le_nat_alt)
  qed
  have low: "mps \<le> 0x4000 \<longrightarrow> mps \<le> bs"
    using DeriveBufferSize_bounds_lower[of raw mps] bs by auto
  have vbr: "mFramesPerPacket d = 0 \<longrightarrow> mps \<le> bs"
    using raw bs
    by (auto simp: DeriveBufferSize_unclamped_def DeriveBufferSize_bounds_def maxBufferSize_def
        minBufferSize_def not_less split: if_splits)
  show ?thesis using u iff low vbr by simp
qed

lemma packetsPerBuffer_floor_examples:
  "DeriveBufferSize (format_of 44100 4 1) 4 (Finite (1 / 2)) = Inr (88200, 22050)
   \<and> unat (22050 :: UInt32) = unat (88200 :: UInt32) div unat (4 :: UInt32)
   \<and> (1 :: UInt32) \<le> 22050
   \<and> (4 :: UInt32) \<le> 0x4000
   \<and> DeriveBufferSize (format_of 44100 0 0) 4000000 (Finite (1 / 2)) = Inr (4000000, 1)
   \<and> mFramesPerPacket (format_of 44100 0 0) = 0"
  using packetsPerBuffer_floor[OF pcm_sizes] packetsPerBuffer_floor[OF variable_sizes]
    pcm_sizes variable_sizes
  by (simp add: format_of_def)

subsection \<open>The size before clamping\<close>

text \<open>
  Claim C4, as the specification states it: with a nonzero number of frames per packet
  the size before clamping is \<open>ceil(sampleRate / framesPerPacket * targetSeconds) *
  maxPacketSize\<close>. The code takes no ceiling: it multiplies the fractional packet count by
  the packet size and truncates the product. At 44.1 kHz with 1024 frames per packet and
  packets of 768 bytes it computes 16537, where the formula gives \<open>22 * 768 = 16896\<close>.
\<close>

theorem unclamped_size_counterexample:
  "DeriveBufferSize_unclamped (format_of 44100 0 1024) 768 (Finite (1 / 2)) = Inr 16537
   \<and> spec_unclamped 44100 1024 (1 / 2) 768 = 16896"
proof -
  have "\<lceil>11025 / 512 :: rat\<rceil> = 22"
    by (rule ceiling_unique) simp_all
  then show ?thesis
    using aac_unclamped by (simp add: spec_unclamped_def)
qed

text \<open>
  Claim C4, amended: with a nonzero number of frames per packet, a sample rate and a
  duration that are not negative, the three \<^verbatim>\<open>Float64\<close> operations exact and the product
  below \<open>2\<^sup>3\<^sup>2\<close>, the size before clamping is
  \<open>floor(sampleRate / framesPerPacket * targetSeconds * maxPacketSize)\<close>: the product is
  truncated once, after the multiplication by the packet size.
\<close>

theorem unclamped_size_truncates_product:
  assumes "mFramesPerPacket d \<noteq> 0" and "mSampleRate d = Finite r" and "0 \<le> r" and "0 \<le> s"
    and "exact64 (r / of_nat (unat (mFramesPerPacket d)))"
    and "exact64 (r / of_nat (unat (mFramesPerPacket d)) * s)"
    and "exact64 (r / of_nat (unat (mFramesPerPacket d)) * s * of_nat (unat mps))"
    and "r / of_nat (unat (mFramesPerPacket d)) * s * of_nat (unat mps) < 2 ^ 32"
  shows "DeriveBufferSize_unclamped d mps (Finite s) =
           Inr (word_of_int \<lfloor>r / of_nat (unat (mFramesPerPacket d)) * s * of_nat (unat mps)\<rfloor>)"
proof -
  let ?q = "r / of_nat (unat (mFramesPerPacket d))"
  let ?t = "?q * s * of_nat (unat mps)"
  have q0: "0 \<le> ?q" using assms(3) by (simp del: of_nat_unat)
  have p0: "0 \<le> ?q * s" using q0 assms(4) by (rule mult_nonneg_nonneg)
  have t0: "0 \<le> ?t" using p0 of_nat_0_le_iff by (rule mult_nonneg_nonneg)
  have "DeriveBufferSize_unclamped d mps (Finite s) = f64_to_u32 (Finite ?t)"
    using assms(1,2,3,4) q0 p0 assms(5,6,7)
    by (intro unclamped_fixed_eval[where q = ?q and p = "?q * s"]) (simp_all add: exact64_def)
  moreover have "\<lfloor>?t\<rfloor> < 2 ^ 32"
    using assms(8) by (simp add: floor_less_iff)
  moreover have "0 \<le> \<lfloor>?t\<rfloor>" using t0 by simp
  ultimately show ?thesis
    using t0 by (simp add: truncate_toward_zero_def)
qed

theorem unclamped_size_truncates_product_witness:
  "mFramesPerPacket (format_of 44100 4 1) \<noteq> 0
   \<and> mSampleRate (format_of 44100 4 1) = Finite 44100
   \<and> exact64 44100 \<and> exact64 22050 \<and> exact64 88200
   \<and> DeriveBufferSize_unclamped (format_of 44100 4 1) 4 (Finite (1 / 2)) = Inr 88200"
proof -
  have e: "exact64 44100" "exact64 22050" "exact64 88200"
    by (simp_all add: exact64_def pcm_roundings)
  have f: "mFramesPerPacket (format_of 44100 4 1) = 1"
    "mSampleRate (format_of 44100 4 1) = Finite 44100"
    by (simp_all add: format_of_def)
  have "DeriveBufferSize_unclamped (format_of 44100 4 1) 4 (Finite (1 / 2)) =
          Inr (word_of_int \<lfloor>44100 / of_nat (unat (mFramesPerPacket (format_of 44100 4 1)))
                              * (1 / 2) * of_nat (unat (4 :: UInt32)) :: rat\<rfloor>)"
    by (rule unclamped_size_truncates_product) (simp_all add: f e)
  then show ?thesis using e f by simp
qed

subsection \<open>The range of the buffer size\<close>

text \<open>
  Claim C5: with a fixed number of frames per packet the final size lies within
  \<open>[0x4000, 0x50000]\<close>, except that with a packet larger than the upper bound it is at
  least the packet size, so that one full packet always fits. The program does not keep
  the exception. With packets of 4096 frames at 8 kHz and a packet size of \<open>0x100000\<close>,
  \<^verbatim>\<open>DeriveBufferSize\<close> returns a size of 1024000 bytes, above the upper bound and below
  the packet size, and 0 packets per buffer. On the same packet size the branch for
  formats without a fixed number of frames per packet returns the packet size. The guard
  of line 166 leaves a size above the upper bound alone when it does not exceed the packet
  size; nothing on the fixed-rate branch raises the size to the packet size.
\<close>

theorem DeriveBufferSize_below_packet_size:
  "mFramesPerPacket (format_of 8000 0 4096) = 4096
   \<and> DeriveBufferSize (format_of 8000 0 4096) 0x100000 (Finite (1 / 2)) = Inr (1024000, 0)
   \<and> \<not> spec_range 0x100000 1024000
   \<and> maxBufferSize < 1024000
   \<and> (1024000 :: UInt32) < 0x100000
   \<and> DeriveBufferSize (format_of 8000 0 0) 0x100000 (Finite (1 / 2)) = Inr (0x100000, 1)"
  using huge_packets_sizes variable_long_sizes(2)
  by (simp add: spec_range_def maxBufferSize_def minBufferSize_def format_of_def)

text \<open>
  Every result outside that range is of this kind: the packet is larger than the upper
  bound, the format has a fixed number of frames per packet, the size is smaller than one
  packet and the packet count is 0.
\<close>

lemma range_failures_have_no_packet:
  assumes "DeriveBufferSize d mps s = Inr (bs, n)" and "\<not> spec_range mps bs"
  shows "maxBufferSize < mps \<and> bs < mps \<and> n = 0 \<and> mFramesPerPacket d \<noteq> 0"
proof -
  from assms(1) obtain raw where raw: "DeriveBufferSize_unclamped d mps s = Inr raw"
    and mps: "mps \<noteq> 0" and bs: "bs = DeriveBufferSize_bounds raw mps" and n: "n = bs div mps"
    by (auto simp: DeriveBufferSize_Inr_iff)
  have lo: "0x4000 \<le> bs" using DeriveBufferSize_bounds_lower[of raw mps] bs by simp
  have up: "bs \<le> 0x50000 \<or> (0x50000 < mps \<and> bs \<le> mps)"
    using DeriveBufferSize_bounds_upper[of raw mps] bs by simp
  have big: "maxBufferSize < mps" and small: "bs < mps"
    using assms(2) lo up
    by (auto simp: spec_range_def maxBufferSize_def minBufferSize_def not_le split: if_splits)
  have "unat n = 0" using small n by (simp add: unat_div word_less_nat_alt)
  then have "n = 0" by (simp add: unat_eq_0)
  moreover have "mFramesPerPacket d \<noteq> 0"
  proof
    assume "mFramesPerPacket d = 0"
    then have "raw = mps" using raw big
      by (auto simp: DeriveBufferSize_unclamped_def split: if_splits)
    then have "bs = mps" using bs big
      by (auto simp: DeriveBufferSize_bounds_def maxBufferSize_def minBufferSize_def
          word_less_nat_alt word_le_nat_alt split: if_splits)
    then show False using small by simp
  qed
  ultimately show ?thesis using big small by simp
qed

text \<open>
  What holds of the size on every input, with a fixed number of frames per packet or not:
  whenever the policy returns, the final size is at least \<open>0x4000\<close>; it is at most
  \<open>0x50000\<close> when the packet size is, and with a larger packet size it is at most the
  packet size.
\<close>

lemma bufferSize_range:
  assumes "DeriveBufferSize d mps s = Inr (bs, n)"
  shows "0x4000 \<le> bs \<and> (mps \<le> 0x50000 \<longrightarrow> bs \<le> 0x50000) \<and> (0x50000 < mps \<longrightarrow> bs \<le> mps)"
proof -
  from assms obtain raw where bs: "bs = DeriveBufferSize_bounds raw mps"
    by (auto simp: DeriveBufferSize_Inr_iff)
  show ?thesis
    using DeriveBufferSize_bounds_lower[of raw mps] DeriveBufferSize_bounds_upper[of raw mps]
    unfolding bs by auto
qed

lemma bufferSize_range_examples:
  "DeriveBufferSize (format_of 44100 4 1) 2048 (Finite (1 / 2)) = Inr (0x50000, 160)
   \<and> (2048 :: UInt32) \<le> 0x50000 \<and> (0x4000 :: UInt32) \<le> 0x50000
   \<and> DeriveBufferSize (format_of 8000 0 4096) 0x100000 (Finite (1 / 2)) = Inr (1024000, 0)
   \<and> (0x50000 :: UInt32) < 0x100000 \<and> (1024000 :: UInt32) \<le> 0x100000"
  using bufferSize_range[OF scenario_sizes] bufferSize_range[OF huge_packets_sizes]
    scenario_sizes huge_packets_sizes
  by simp

subsection \<open>The lower bound\<close>

text \<open>
  Claim C10: for every input the buffer size that the policy returns is at least the
  lower bound \<open>0x4000\<close>. The second stage yields at least \<open>0x4000\<close> whatever the first
  stage computed, so the size written to \<open>outBufferSize\<close> has the bound on both branches.
\<close>

theorem bufferSize_at_least_lower_bound:
  "0x4000 \<le> DeriveBufferSize_bounds raw mps
   \<and> (DeriveBufferSize d mps s = Inr (bs, n) \<longrightarrow> 0x4000 \<le> bs)"
  using DeriveBufferSize_bounds_lower by (auto simp: DeriveBufferSize_Inr_iff)

theorem bufferSize_at_least_lower_bound_witness:
  "DeriveBufferSize (format_of 44100 0 0) 4000000 (Finite (1 / 2)) = Inr (4000000, 1)
   \<and> (0x4000 :: UInt32) \<le> 4000000
   \<and> DeriveBufferSize (format_of 8000 0 4096) 24576 (Finite (1 / 2)) = Inr (24000, 0)
   \<and> (0x4000 :: UInt32) \<le> 24000"
  using bufferSize_at_least_lower_bound[where d = "format_of 44100 0 0" and mps = 4000000
      and s = "Finite (1 / 2)" and bs = 4000000 and n = 1]
    bufferSize_at_least_lower_bound[where d = "format_of 8000 0 4096" and mps = 24576
      and s = "Finite (1 / 2)" and bs = 24000 and n = 0]
    variable_sizes long_packets_sizes
  by simp

section \<open>Properties of the refill callback\<close>

lemma HandleOutputBuffer_aq:
  "aq (HandleOutputBuffer rd w q b) =
     (if \<not> mIsRunning (aq w) then aq w
      else if 0 < outNumPackets (readPackets rd (aq w))
      then (aq w)\<lparr>mCurrentPacket :=
                     mCurrentPacket (aq w) + ucast (outNumPackets (readPackets rd (aq w)))\<rparr>
      else (aq w)\<lparr>mIsRunning := False\<rparr>)"
  by (simp add: HandleOutputBuffer_def Let_def emit_def)

lemma HandleOutputBuffer_cursor:
  "mCurrentPacket (aq (HandleOutputBuffer rd w q b)) =
     mCurrentPacket (aq w) + of_nat (packetsObtained rd w)"
  by (simp add: HandleOutputBuffer_def packetsObtained_def Let_def emit_def
      word_greater_zero_iff)

lemma HandleOutputBuffer_descsFollowFormat:
  "descsFollowFormat (aq (HandleOutputBuffer rd w q b)) = descsFollowFormat (aq w)"
  by (simp add: HandleOutputBuffer_aq descsFollowFormat_def)

lemma HandleOutputBuffer_silent:
  "\<not> mIsRunning (aq (HandleOutputBuffer silentReader w q b))"
  by (simp add: HandleOutputBuffer_def Let_def emit_def silentReader_def readPackets_def)

lemma refills_not_running:
  "\<not> mIsRunning (aq w) \<Longrightarrow> refills rd w bufs = w"
  by (induction bufs arbitrary: w) (simp_all add: HandleOutputBuffer_def)

text \<open>
  \<^verbatim>\<open>AQPlayerState_AllocatePacketDescriptionsArray\<close> makes the descriptor pointer follow
  the format, provided \<^verbatim>\<open>malloc\<close> does not return null.
\<close>

lemma AllocatePacketDescriptionsArray_descsFollowFormat:
  assumes "malloc_packetDescs env \<noteq> NULL"
  shows "descsFollowFormat (aq (AQPlayerState_AllocatePacketDescriptionsArray env w))"
  using assms
  by (simp add: AQPlayerState_AllocatePacketDescriptionsArray_def descsFollowFormat_def)

lemma AllocatePacketDescriptionsArray_aq:
  "aq (AQPlayerState_AllocatePacketDescriptionsArray env w) =
     (aq w)\<lparr>mPacketDescs :=
               if isFormatVBR (mDataFormat (aq w)) then malloc_packetDescs env else NULL\<rparr>"
  by (simp add: AQPlayerState_AllocatePacketDescriptionsArray_def)

lemma AllocatePacketDescriptionsArray_trace:
  "trace (AQPlayerState_AllocatePacketDescriptionsArray env w) = trace w"
  by (simp add: AQPlayerState_AllocatePacketDescriptionsArray_def)

subsection \<open>Sample reads\<close>

lemma playing_fields:
  "mIsRunning (aq playingWorld)" "mCurrentPacket (aq playingWorld) = 0"
  "mQueue (aq playingWorld) = 1" "mPacketDescs (aq playingWorld) = NULL"
  "bufferByteSize (aq playingWorld) = 88200" "mNumPacketsToRead (aq playingWorld) = 22050"
  "mAudioFile (aq playingWorld) = 2" "trace playingWorld = []"
  "mDataFormat (aq playingWorld) = format_of 44100 4 1"
  "length (mBuffers (aq playingWorld)) = kNumberBuffers"
  by (simp_all add: playingWorld_def initialWorld_def)

lemma mock_reads:
  "readPackets (mockReader 30000 4) (aq playingWorld) =
     \<lparr>outNumBytes = 88200, outNumPackets = 22050, outData = replicate 88200 0\<rparr>"
  "readPackets (mockReader 30000 4) ((aq playingWorld)\<lparr>mCurrentPacket := 22050\<rparr>) =
     \<lparr>outNumBytes = 31800, outNumPackets = 7950, outData = replicate 31800 0\<rparr>"
  "readPackets (mockReader 30000 4) ((aq playingWorld)\<lparr>mCurrentPacket := 30000\<rparr>) =
     \<lparr>outNumBytes = 0, outNumPackets = 0, outData = []\<rparr>"
  by (simp_all add: readPackets_def mockReader_def playingWorld_def initialWorld_def Let_def)

lemma playing_descs: "descsFollowFormat (aq playingWorld)"
  by (simp add: descsFollowFormat_def playing_fields isFormatVBR_def format_of_def)

lemma playing_packetsRead:
  "packetsRead (mockReader 30000 4) playingWorld [10, 11, 12] = [22050, 7950, 0]"
  by (simp add: packetsObtained_def HandleOutputBuffer_aq mock_reads playing_fields)

text \<open>
  The session of \<open>vbrWorld\<close> once \<^verbatim>\<open>AQPlayerState_AllocatePacketDescriptionsArray\<close> has
  run with a failing \<^verbatim>\<open>malloc\<close>, and its first read from a source of 1000 packets of 768
  bytes.
\<close>

lemma vbr_fields:
  "isFormatVBR (mDataFormat (aq vbrWorld))" "mIsRunning (aq vbrWorld)"
  "malloc_packetDescs vbrEnv = NULL" "trace vbrWorld = []"
  "dataFormat vbrEnv = format_of 44100 0 1024" "packetSizeUpperBound vbrEnv = 768"
  by (simp_all add: vbrWorld_def vbrEnv_def sampleEnv_def initialWorld_def isFormatVBR_def
      format_of_def)

lemma vbr_session:
  "aq (AQPlayerState_AllocatePacketDescriptionsArray vbrEnv vbrWorld) =
     sessionAtPriming vbrEnv 16537 21"
  by (simp add: AllocatePacketDescriptionsArray_aq sessionAtPriming_def vbrWorld_def vbrEnv_def
      sampleEnv_def initialWorld_def isFormatVBR_def format_of_def)

lemma vbr_read:
  "readPackets (mockReader 1000 768) (sessionAtPriming vbrEnv 16537 21) =
     \<lparr>outNumBytes = 16128, outNumPackets = 21, outData = replicate 16128 0\<rparr>"
  by (simp add: readPackets_def mockReader_def sessionAtPriming_def Let_def vbrEnv_def
      sampleEnv_def)

text \<open>The same session when \<^verbatim>\<open>malloc\<close> returns the address 7.\<close>

lemma vbr_allocated:
  "aq (AQPlayerState_AllocatePacketDescriptionsArray (vbrEnv\<lparr>malloc_packetDescs := 7\<rparr>) vbrWorld) =
     (sessionAtPriming vbrEnv 16537 21)\<lparr>mPacketDescs := 7\<rparr>"
  "readPackets (mockReader 1000 768) ((sessionAtPriming vbrEnv 16537 21)\<lparr>mPacketDescs := 7\<rparr>) =
     \<lparr>outNumBytes = 16128, outNumPackets = 21, outData = replicate 16128 0\<rparr>"
  "trace (AQPlayerState_AllocatePacketDescriptionsArray (vbrEnv\<lparr>malloc_packetDescs := 7\<rparr>) vbrWorld) =
     []"
  by (simp_all add: AllocatePacketDescriptionsArray_aq AllocatePacketDescriptionsArray_trace
      readPackets_def mockReader_def Let_def sessionAtPriming_def vbrWorld_def vbrEnv_def
      sampleEnv_def initialWorld_def isFormatVBR_def format_of_def NULL_def)

subsection \<open>A read that obtains packets\<close>

text \<open>
  Claim C1, as the specification states it: when the session is running and the read
  obtains more than zero packets, the buffer is handed to the sink with count 0 and a null
  descriptor array when the format is constant-bit-rate, and with the packet count and the
  descriptor array when it is variable-bit-rate. The callback does not look at the format:
  line 122 chooses by the descriptor pointer. On the variable-bit-rate file of \<open>vbrEnv\<close>,
  with the sizes that \<^verbatim>\<open>DeriveBufferSize\<close> gives, \<^verbatim>\<open>malloc\<close> returns null and the
  session goes on with a null pointer; the read obtains 21 packets and the buffer is
  enqueued with count 0 and a null descriptor array. (That \<^verbatim>\<open>main\<close> reaches priming with
  this session is lemma \<open>vbr_session_reached\<close>.)
\<close>

theorem vbr_null_descriptors_counterexample:
  "isFormatVBR (dataFormat vbrEnv)
   \<and> DeriveBufferSize (dataFormat vbrEnv) (packetSizeUpperBound vbrEnv) (Finite (1 / 2)) =
       Inr (16537, 21)
   \<and> malloc_packetDescs vbrEnv = NULL
   \<and> aq (AQPlayerState_AllocatePacketDescriptionsArray vbrEnv vbrWorld) =
       sessionAtPriming vbrEnv 16537 21
   \<and> mIsRunning (sessionAtPriming vbrEnv 16537 21)
   \<and> isFormatVBR (mDataFormat (sessionAtPriming vbrEnv 16537 21))
   \<and> outNumPackets (readPackets (mockReader 1000 768) (sessionAtPriming vbrEnv 16537 21)) = 21
   \<and> trace (HandleOutputBuffer (mockReader 1000 768)
               (AQPlayerState_AllocatePacketDescriptionsArray vbrEnv vbrWorld) 1 10) =
        [AudioFileReadPacketData 2 False 16537 NULL 0 21 10,
         Stdout (''read %d / %d bytes'' @ newline) [ArgInt 16128, ArgInt 16537],
         AudioQueueEnqueueBuffer 1 10 0 NULL]"
proof -
  have s: "mIsRunning (sessionAtPriming vbrEnv 16537 21)"
    "isFormatVBR (mDataFormat (sessionAtPriming vbrEnv 16537 21))"
    "mPacketDescs (sessionAtPriming vbrEnv 16537 21) = NULL"
    "mAudioFile (sessionAtPriming vbrEnv 16537 21) = 2"
    "bufferByteSize (sessionAtPriming vbrEnv 16537 21) = 16537"
    "mNumPacketsToRead (sessionAtPriming vbrEnv 16537 21) = 21"
    "mCurrentPacket (sessionAtPriming vbrEnv 16537 21) = 0"
    by (simp_all add: sessionAtPriming_def vbr_fields)
       (simp_all add: vbrEnv_def sampleEnv_def isFormatVBR_def format_of_def)
  have t: "trace (HandleOutputBuffer (mockReader 1000 768)
               (AQPlayerState_AllocatePacketDescriptionsArray vbrEnv vbrWorld) 1 10) =
        [AudioFileReadPacketData 2 False 16537 NULL 0 21 10,
         Stdout (''read %d / %d bytes'' @ newline) [ArgInt 16128, ArgInt 16537],
         AudioQueueEnqueueBuffer 1 10 0 NULL]"
    by (simp add: HandleOutputBuffer_def Let_def emit_def vbr_session vbr_read s
        AllocatePacketDescriptionsArray_trace vbr_fields)
  have f: "isFormatVBR (dataFormat vbrEnv)"
    by (simp add: vbr_fields isFormatVBR_def format_of_def)
  have d: "DeriveBufferSize (dataFormat vbrEnv) (packetSizeUpperBound vbrEnv) (Finite (1 / 2)) =
             Inr (16537, 21)"
    by (simp add: vbr_fields aac_sizes)
  have r: "outNumPackets (readPackets (mockReader 1000 768) (sessionAtPriming vbrEnv 16537 21)) =
             21"
    by (simp add: vbr_read)
  show ?thesis
    using f d vbr_fields(3) vbr_session s(1,2) r t by blast
qed

text \<open>
  Claim C1, amended: when the session is running and the read obtains more than zero
  packets, the callback sets the buffer's \<open>mAudioDataByteSize\<close> to the number of bytes
  obtained, advances the cursor by the number of packets obtained, changing no other field
  of the session, and hands the buffer to the sink according to the descriptor pointer of
  the session: with count 0 and a null descriptor array when the pointer is null, with the
  packet count and the descriptor array when it is not. When the pointer follows the
  format, null for constant-bit-rate data and not null for variable-bit-rate data, that is
  count 0 and a null array for constant-bit-rate data and the packet count and the array
  for variable-bit-rate data. (Initialisation makes the pointer follow the format for
  every constant-bit-rate format, and for a variable-bit-rate format when the descriptor
  array has been allocated: lemma \<open>Initialize_descsFollowFormat\<close>.)
\<close>

theorem HandleOutputBuffer_enqueues:
  assumes "mIsRunning (aq w)"
    and "0 < outNumPackets (readPackets rd (aq w))"
  shows "mAudioDataByteSize (buffers (HandleOutputBuffer rd w inAQ buf) buf) =
           outNumBytes (readPackets rd (aq w))
       \<and> trace (HandleOutputBuffer rd w inAQ buf) = trace w @
           [AudioFileReadPacketData (mAudioFile (aq w)) False (bufferByteSize (aq w))
              (mPacketDescs (aq w)) (mCurrentPacket (aq w)) (mNumPacketsToRead (aq w)) buf,
            Stdout (''read %d / %d bytes'' @ newline)
              [ArgInt (sint (outNumBytes (readPackets rd (aq w)))),
               ArgInt (sint (bufferByteSize (aq w)))],
            if mPacketDescs (aq w) = NULL then AudioQueueEnqueueBuffer inAQ buf 0 NULL
            else AudioQueueEnqueueBuffer inAQ buf (outNumPackets (readPackets rd (aq w)))
                   (mPacketDescs (aq w))]
       \<and> (descsFollowFormat (aq w) \<longrightarrow>
            last (trace (HandleOutputBuffer rd w inAQ buf)) =
              (if isFormatVBR (mDataFormat (aq w))
               then AudioQueueEnqueueBuffer inAQ buf (outNumPackets (readPackets rd (aq w)))
                      (mPacketDescs (aq w))
               else AudioQueueEnqueueBuffer inAQ buf 0 NULL))
       \<and> aq (HandleOutputBuffer rd w inAQ buf) =
           (aq w)\<lparr>mCurrentPacket :=
                     mCurrentPacket (aq w) + ucast (outNumPackets (readPackets rd (aq w)))\<rparr>"
  using assms
  by (auto simp add: HandleOutputBuffer_def Let_def emit_def descsFollowFormat_def)

theorem HandleOutputBuffer_enqueues_witness:
  "mIsRunning (aq playingWorld)
   \<and> 0 < outNumPackets (readPackets (mockReader 30000 4) (aq playingWorld))
   \<and> descsFollowFormat (aq playingWorld)
   \<and> \<not> isFormatVBR (mDataFormat (aq playingWorld))
   \<and> mAudioDataByteSize
        (buffers (HandleOutputBuffer (mockReader 30000 4) playingWorld 1 10) 10) = 88200
   \<and> trace (HandleOutputBuffer (mockReader 30000 4) playingWorld 1 10) =
        [AudioFileReadPacketData 2 False 88200 NULL 0 22050 10,
         Stdout (''read %d / %d bytes'' @ newline) [ArgInt 88200, ArgInt 88200],
         AudioQueueEnqueueBuffer 1 10 0 NULL]
   \<and> last (trace (HandleOutputBuffer (mockReader 30000 4) playingWorld 1 10)) =
        AudioQueueEnqueueBuffer 1 10 0 NULL
   \<and> mCurrentPacket (aq (HandleOutputBuffer (mockReader 30000 4) playingWorld 1 10)) = 22050
   \<and> isFormatVBR (mDataFormat (aq (AQPlayerState_AllocatePacketDescriptionsArray
        (vbrEnv\<lparr>malloc_packetDescs := 7\<rparr>) vbrWorld)))
   \<and> descsFollowFormat (aq (AQPlayerState_AllocatePacketDescriptionsArray
        (vbrEnv\<lparr>malloc_packetDescs := 7\<rparr>) vbrWorld))
   \<and> trace (HandleOutputBuffer (mockReader 1000 768)
        (AQPlayerState_AllocatePacketDescriptionsArray (vbrEnv\<lparr>malloc_packetDescs := 7\<rparr>)
           vbrWorld) 1 10) =
        [AudioFileReadPacketData 2 False 16537 7 0 21 10,
         Stdout (''read %d / %d bytes'' @ newline) [ArgInt 16128, ArgInt 16537],
         AudioQueueEnqueueBuffer 1 10 21 7]"
proof -
  let ?v = "AQPlayerState_AllocatePacketDescriptionsArray (vbrEnv\<lparr>malloc_packetDescs := 7\<rparr>)
              vbrWorld"
  have vs: "mIsRunning (aq ?v)" "mPacketDescs (aq ?v) = 7" "mAudioFile (aq ?v) = 2"
    "bufferByteSize (aq ?v) = 16537" "mNumPacketsToRead (aq ?v) = 21"
    "mCurrentPacket (aq ?v) = 0" "mDataFormat (aq ?v) = format_of 44100 0 1024"
    by (simp_all add: vbr_allocated(1) sessionAtPriming_def vbr_fields)
       (simp_all add: vbrEnv_def sampleEnv_def)
  have vr: "readPackets (mockReader 1000 768) (aq ?v) =
              \<lparr>outNumBytes = 16128, outNumPackets = 21, outData = replicate 16128 0\<rparr>"
    by (simp only: vbr_allocated(1,2))
  have vh: "mIsRunning (aq ?v)" "0 < outNumPackets (readPackets (mockReader 1000 768) (aq ?v))"
    by (simp_all add: vs vr)
  have vf: "isFormatVBR (mDataFormat (aq ?v))"
    by (simp add: vs isFormatVBR_def format_of_def)
  have vd: "descsFollowFormat (aq ?v)"
    by (simp add: descsFollowFormat_def vs isFormatVBR_def format_of_def NULL_def)
  have 5: "trace (HandleOutputBuffer (mockReader 1000 768) ?v 1 10) =
        [AudioFileReadPacketData 2 False 16537 7 0 21 10,
         Stdout (''read %d / %d bytes'' @ newline) [ArgInt 16128, ArgInt 16537],
         AudioQueueEnqueueBuffer 1 10 21 7]"
    using HandleOutputBuffer_enqueues[OF vh, of 1 10]
    by (simp add: vr vs vbr_allocated(3) NULL_def)
  have h: "mIsRunning (aq playingWorld)"
    "0 < outNumPackets (readPackets (mockReader 30000 4) (aq playingWorld))"
    by (simp_all add: playing_fields mock_reads)
  have d: "descsFollowFormat (aq playingWorld)" by (rule playing_descs)
  have c: "\<not> isFormatVBR (mDataFormat (aq playingWorld))"
    by (simp add: playing_fields isFormatVBR_def format_of_def)
  note t = HandleOutputBuffer_enqueues[OF h, of 1 10]
  have 1: "mAudioDataByteSize
        (buffers (HandleOutputBuffer (mockReader 30000 4) playingWorld 1 10) 10) = 88200"
    using t by (simp add: mock_reads)
  have 2: "trace (HandleOutputBuffer (mockReader 30000 4) playingWorld 1 10) =
        [AudioFileReadPacketData 2 False 88200 NULL 0 22050 10,
         Stdout (''read %d / %d bytes'' @ newline) [ArgInt 88200, ArgInt 88200],
         AudioQueueEnqueueBuffer 1 10 0 NULL]"
    using t by (simp add: mock_reads playing_fields)
  have "last (trace (HandleOutputBuffer (mockReader 30000 4) playingWorld 1 10)) =
          (if isFormatVBR (mDataFormat (aq playingWorld))
           then AudioQueueEnqueueBuffer 1 10
                  (outNumPackets (readPackets (mockReader 30000 4) (aq playingWorld)))
                  (mPacketDescs (aq playingWorld))
           else AudioQueueEnqueueBuffer 1 10 0 NULL)"
    using t d by blast
  then have 3: "last (trace (HandleOutputBuffer (mockReader 30000 4) playingWorld 1 10)) =
        AudioQueueEnqueueBuffer 1 10 0 NULL"
    using c by simp
  have 4: "mCurrentPacket (aq (HandleOutputBuffer (mockReader 30000 4) playingWorld 1 10)) =
             22050"
    using t by (simp add: mock_reads playing_fields)
  show ?thesis
    using h d c 1 2 3 4 vf vd 5 by blast
qed

subsection \<open>A read that obtains nothing\<close>

text \<open>
  Claim C2: when the session is running and the read obtains zero packets, the callback
  calls \<^verbatim>\<open>AudioQueueStop\<close> with \<open>inImmediate = false\<close>, so that the sink stops once the
  buffers already queued have played, and sets \<open>mIsRunning\<close> to false. Nothing else of the
  session changes, nothing is enqueued, nothing goes to the error stream and the callback
  returns to its caller.
\<close>

theorem HandleOutputBuffer_end_of_stream:
  assumes "mIsRunning (aq w)"
    and "outNumPackets (readPackets rd (aq w)) = 0"
  shows "trace (HandleOutputBuffer rd w inAQ buf) = trace w @
           [AudioFileReadPacketData (mAudioFile (aq w)) False (bufferByteSize (aq w))
              (mPacketDescs (aq w)) (mCurrentPacket (aq w)) (mNumPacketsToRead (aq w)) buf,
            Stdout (''read %d / %d bytes'' @ newline)
              [ArgInt (sint (outNumBytes (readPackets rd (aq w)))),
               ArgInt (sint (bufferByteSize (aq w)))],
            AudioQueueStop inAQ False]
       \<and> aq (HandleOutputBuffer rd w inAQ buf) = (aq w)\<lparr>mIsRunning := False\<rparr>
       \<and> mAudioDataByteSize (buffers (HandleOutputBuffer rd w inAQ buf) buf) =
           mAudioDataByteSize (buffers w buf)"
  using assms by (simp add: HandleOutputBuffer_def Let_def emit_def)

theorem HandleOutputBuffer_end_of_stream_witness:
  "mIsRunning (aq playingWorld)
   \<and> outNumPackets (readPackets silentReader (aq playingWorld)) = 0
   \<and> trace (HandleOutputBuffer silentReader playingWorld 1 10) =
        [AudioFileReadPacketData 2 False 88200 NULL 0 22050 10,
         Stdout (''read %d / %d bytes'' @ newline) [ArgInt 0, ArgInt 88200],
         AudioQueueStop 1 False]
   \<and> \<not> mIsRunning (aq (HandleOutputBuffer silentReader playingWorld 1 10))"
proof -
  have h: "mIsRunning (aq playingWorld)"
    "outNumPackets (readPackets silentReader (aq playingWorld)) = 0"
    by (simp_all add: playing_fields readPackets_def silentReader_def)
  show ?thesis
    using HandleOutputBuffer_end_of_stream[OF h, of 1 10] h
    by (simp add: playing_fields readPackets_def silentReader_def)
qed

subsection \<open>A session that is not running\<close>

text \<open>
  Claim C8: when \<open>mIsRunning\<close> is false the callback returns at once: the session, every
  buffer and the sequence of calls to the source and the sink are what they were.
\<close>

theorem HandleOutputBuffer_not_running:
  "\<not> mIsRunning (aq w) \<Longrightarrow> HandleOutputBuffer rd w inAQ buf = w"
  by (simp add: HandleOutputBuffer_def)

theorem HandleOutputBuffer_not_running_witness:
  "\<not> mIsRunning (aq initialWorld)
   \<and> HandleOutputBuffer (mockReader 30000 4) initialWorld 1 10 = initialWorld"
proof -
  have h: "\<not> mIsRunning (aq initialWorld)" by (simp add: initialWorld_def)
  show ?thesis
    using HandleOutputBuffer_not_running[OF h, of "mockReader 30000 4" 1 10] h by simp
qed

section \<open>Properties of the cursor and of priming\<close>

lemma enqueuedBuffers_append:
  "enqueuedBuffers (xs @ ys) = enqueuedBuffers xs @ enqueuedBuffers ys"
  by (induction xs rule: enqueuedBuffers.induct) simp_all

lemma startedQueues_append:
  "startedQueues (xs @ ys) = startedQueues xs @ startedQueues ys"
  by (induction xs rule: startedQueues.induct) simp_all

lemma HandleOutputBuffer_enqueued:
  "enqueuedBuffers (trace (HandleOutputBuffer rd w q b)) =
     enqueuedBuffers (trace w) @ (if 0 < packetsObtained rd w then [b] else [])"
  by (simp add: HandleOutputBuffer_def packetsObtained_def Let_def emit_def
      enqueuedBuffers_append unat_gt_0 word_greater_zero_iff)

lemma HandleOutputBuffer_started:
  "startedQueues (trace (HandleOutputBuffer rd w q b)) = startedQueues (trace w)"
  by (simp add: HandleOutputBuffer_def Let_def emit_def startedQueues_append)

lemma HandleOutputBuffer_mBuffers:
  "mBuffers (aq (HandleOutputBuffer rd w q b)) = mBuffers (aq w)"
  by (simp add: HandleOutputBuffer_def Let_def emit_def)

lemma refills_cursor:
  "mCurrentPacket (aq (refills rd w bufs)) =
     mCurrentPacket (aq w) + of_nat (sum_list (packetsRead rd w bufs))"
  by (induction bufs arbitrary: w) (simp_all add: HandleOutputBuffer_cursor)

text \<open>Adding a count to a cursor that is not negative does not wrap below \<open>2\<^sup>6\<^sup>3\<close>.\<close>

lemma sint_add_of_nat:
  fixes c :: SInt64
  assumes "0 \<le> sint c" and "sint c + int n < 2 ^ 63"
  shows "sint (c + of_nat n) = sint c + int n"
proof -
  have "c + of_nat n = word_of_int (sint c + int n)"
    by simp
  then have "sint (c + of_nat n) = signed_take_bit 63 (sint c + int n)"
    by (simp only: sint_sbintrunc') simp
  also have "\<dots> = sint c + int n"
    using assms by (intro signed_take_bit_int_eq_self) simp_all
  finally show ?thesis .
qed

lemma sint_of_nat_small:
  assumes "n < 2 ^ 63"
  shows "sint (of_nat n :: SInt64) = int n"
  using sint_add_of_nat[of 0 n] assms by simp

lemma packetsObtained_bound: "packetsObtained rd w < 2 ^ 32"
proof -
  have "unat (outNumPackets (readPackets rd (aq w))) < 2 ^ 32"
    using unsigned_less[of "outNumPackets (readPackets rd (aq w))"] by simp
  then show ?thesis by (simp add: packetsObtained_def)
qed

lemma packetsObtained_AllocateBuffer_k:
  "packetsObtained rd (AllocateBuffer_k env k w) = packetsObtained rd w"
  by (simp add: packetsObtained_def AllocateBuffer_k_def Let_def emit_def readPackets_def)

subsection \<open>The priming loop, turn by turn\<close>

lemma primeStep_unfold:
  assumes "k < length (mBuffers (aq w))"
  shows "HandleOutputBuffer (reader env) (AllocateBuffer_k env k w)
           (mQueue (aq (AllocateBuffer_k env k w)))
           (mBuffers (aq (AllocateBuffer_k env k w)) ! k) =
         primeStep env k w"
  using assms by (simp add: primeStep_def AllocateBuffer_k_def Let_def emit_def)

lemma primeStep_length:
  "length (mBuffers (aq (primeStep env k w))) = length (mBuffers (aq w))"
  by (simp add: primeStep_def HandleOutputBuffer_mBuffers AllocateBuffer_k_def Let_def emit_def)

lemma loop_step:
  assumes "k < kNumberBuffers" and "length (mBuffers (aq w)) = kNumberBuffers"
  shows "AllocateBuffersAndPrime_loop env k w =
           AllocateBuffersAndPrime_loop env (Suc k) (primeStep env k w)"
  using assms
  by (subst AllocateBuffersAndPrime_loop.simps) (simp add: Let_def primeStep_unfold)

lemma loop_done: "AllocateBuffersAndPrime_loop env kNumberBuffers w = w"
  by (subst AllocateBuffersAndPrime_loop.simps) simp

lemma prime_unroll:
  assumes "length (mBuffers (aq w)) = kNumberBuffers"
  shows "AllocateBuffersAndPrime_loop env 0 w =
           primeStep env 2 (primeStep env 1 (primeStep env 0 w))"
proof -
  let ?w1 = "primeStep env 0 w"
  have "AllocateBuffersAndPrime_loop env 0 w = AllocateBuffersAndPrime_loop env (Suc 0) ?w1"
    using assms by (intro loop_step) (simp_all add: kNumberBuffers_def)
  also have "\<dots> = AllocateBuffersAndPrime_loop env (Suc (Suc 0)) (primeStep env (Suc 0) ?w1)"
    using assms by (intro loop_step) (simp_all add: kNumberBuffers_def primeStep_length)
  also have "\<dots> = AllocateBuffersAndPrime_loop env (Suc (Suc (Suc 0)))
                      (primeStep env (Suc (Suc 0)) (primeStep env (Suc 0) ?w1))"
    using assms by (intro loop_step) (simp_all add: kNumberBuffers_def primeStep_length)
  also have "\<dots> = primeStep env (Suc (Suc 0)) (primeStep env (Suc 0) ?w1)"
    using loop_done[of env] by (simp add: kNumberBuffers_def numeral_3_eq_3)
  finally show ?thesis by (simp add: numeral_2_eq_2)
qed

lemma primeStep_cursor:
  "mCurrentPacket (aq (primeStep env k w)) =
     mCurrentPacket (aq w) + of_nat (packetsObtained (reader env) w)"
  by (simp add: primeStep_def HandleOutputBuffer_cursor)
     (simp add: packetsObtained_def AllocateBuffer_k_def Let_def emit_def readPackets_def)

lemma primeStep_enqueued:
  "enqueuedBuffers (trace (primeStep env k w)) =
     enqueuedBuffers (trace w) @
     (if 0 < packetsObtained (reader env) w then [allocateBuffer env k] else [])"
  by (simp add: primeStep_def HandleOutputBuffer_enqueued)
     (simp add: packetsObtained_def AllocateBuffer_k_def Let_def emit_def readPackets_def
        enqueuedBuffers_append)

lemma primeStep_started:
  "startedQueues (trace (primeStep env k w)) = startedQueues (trace w)"
  by (simp add: primeStep_def HandleOutputBuffer_started)
     (simp add: AllocateBuffer_k_def Let_def emit_def startedQueues_append)

lemma primingReads_bound: "sum_list (primingReads env w) < 3 * 2 ^ 32"
proof -
  let ?w0 = "w\<lparr>aq := (aq w)\<lparr>mCurrentPacket := 0\<rparr>\<rparr>"
  let ?w1 = "primeStep env 0 ?w0"
  let ?w2 = "primeStep env 1 ?w1"
  have "packetsObtained (reader env) (AllocateBuffer_k env 0 ?w0) < 2 ^ 32"
    and "packetsObtained (reader env) (AllocateBuffer_k env 1 ?w1) < 2 ^ 32"
    and "packetsObtained (reader env) (AllocateBuffer_k env 2 ?w2) < 2 ^ 32"
    by (rule packetsObtained_bound)+
  then show ?thesis
    by (simp add: primingReads_def Let_def)
qed

lemma prime_cursor:
  assumes "length (mBuffers (aq w)) = kNumberBuffers"
  shows "mCurrentPacket (aq (AQPlayerState_AllocateBuffersAndPrime env w)) =
           of_nat (sum_list (primingReads env w))"
  using assms
  by (simp add: AQPlayerState_AllocateBuffersAndPrime_def prime_unroll primeStep_cursor
      primingReads_def Let_def packetsObtained_AllocateBuffer_k)

subsection \<open>Sources read within their length\<close>

text \<open>
  With such a source of fewer than \<open>2\<^sup>6\<^sup>3\<close> packets the cursor stays within the
  source, whatever the number of refills.
\<close>

lemma mockReader_readsWithin: "readsWithin N (mockReader N b)"
  unfolding readsWithin_def
proof (intro allI impI)
  fix fileID numBytes descs and start :: SInt64 and numPackets :: UInt32
  assume a: "0 \<le> sint start \<and> sint start \<le> int N"
  let ?k = "min (unat numPackets) (N - nat (sint start))"
  have "unat (outNumPackets (mockReader N b fileID numBytes descs start numPackets)) =
          unat (of_nat ?k :: UInt32)"
    by (simp add: mockReader_def Let_def)
  also have "\<dots> = ?k mod 2 ^ 32"
    by (simp add: unat_of_nat)
  also have "\<dots> \<le> ?k"
    by (rule mod_less_eq_dividend)
  also have "\<dots> \<le> N - nat (sint start)"
    by simp
  finally show "int (unat (outNumPackets (mockReader N b fileID numBytes descs start numPackets)))
                  \<le> int N - sint start"
    using a by linarith
qed

lemma readsWithin_packetsObtained:
  assumes "readsWithin N rd"
    and "0 \<le> sint (mCurrentPacket (aq w))" and "sint (mCurrentPacket (aq w)) \<le> int N"
  shows "sint (mCurrentPacket (aq w)) + int (packetsObtained rd w) \<le> int N"
proof (cases "mIsRunning (aq w)")
  case False
  then show ?thesis using assms by (simp add: packetsObtained_def)
next
  case True
  have "int (unat (outNumPackets (readPackets rd (aq w)))) \<le>
          int N - sint (mCurrentPacket (aq w))"
    using assms unfolding readsWithin_def readPackets_def by blast
  then show ?thesis using True by (simp add: packetsObtained_def)
qed

lemma readsWithin_refills:
  assumes "readsWithin N rd" and "N < 2 ^ 63"
    and "0 \<le> sint (mCurrentPacket (aq w))" and "sint (mCurrentPacket (aq w)) \<le> int N"
  shows "sint (mCurrentPacket (aq w)) + int (sum_list (packetsRead rd w bufs)) \<le> int N"
  using assms(3,4)
proof (induction bufs arbitrary: w)
  case Nil
  then show ?case by simp
next
  case (Cons buf bufs)
  let ?p = "packetsObtained rd w"
  let ?w' = "HandleOutputBuffer rd w (mQueue (aq w)) buf"
  have p: "sint (mCurrentPacket (aq w)) + int ?p \<le> int N"
    using assms(1) Cons.prems by (rule readsWithin_packetsObtained)
  moreover have "int N < 2 ^ 63"
    using assms(2) by simp
  ultimately have "sint (mCurrentPacket (aq w)) + int ?p < 2 ^ 63"
    by linarith
  then have c': "sint (mCurrentPacket (aq ?w')) = sint (mCurrentPacket (aq w)) + int ?p"
    using Cons.prems(1) by (simp only: HandleOutputBuffer_cursor sint_add_of_nat)
  have "sint (mCurrentPacket (aq ?w')) + int (sum_list (packetsRead rd ?w' bufs)) \<le> int N"
    using Cons.prems(1) p by (intro Cons.IH) (simp_all add: c')
  then show ?case by (simp add: c')
qed

subsection \<open>The cursor\<close>

text \<open>
  Claim C6: the cursor is set to 0 when the session is primed, and every refill adds to
  it the number of packets it read. After priming it is the sum of the packets read by
  the three priming refills; after any further sequence of refills it is its former value
  plus the sum of the packets they read. The cursor is a signed 64-bit integer: the sum is
  the integer sum, and the cursor never decreases, as long as the packets read in all
  stay below \<open>2\<^sup>6\<^sup>3\<close>; they always do with a source of fewer than \<open>2\<^sup>6\<^sup>3\<close> packets that
  is read within its length, and the cursor then never passes the end of the source.
\<close>

theorem cursor_is_sum_of_packets_read:
  "(length (mBuffers (aq w)) = kNumberBuffers \<longrightarrow>
      sint (mCurrentPacket (aq (AQPlayerState_AllocateBuffersAndPrime env w))) =
        int (sum_list (primingReads env w)))
   \<and> mCurrentPacket (aq (refills rd w bufs)) =
        mCurrentPacket (aq w) + of_nat (sum_list (packetsRead rd w bufs))
   \<and> (0 \<le> sint (mCurrentPacket (aq w)) \<and>
       sint (mCurrentPacket (aq w)) + int (sum_list (packetsRead rd w bufs)) < 2 ^ 63 \<longrightarrow>
        sint (mCurrentPacket (aq (refills rd w bufs))) =
          sint (mCurrentPacket (aq w)) + int (sum_list (packetsRead rd w bufs))
        \<and> sint (mCurrentPacket (aq w)) \<le> sint (mCurrentPacket (aq (refills rd w bufs))))
   \<and> (readsWithin N rd \<and> N < 2 ^ 63 \<and> 0 \<le> sint (mCurrentPacket (aq w)) \<and>
       sint (mCurrentPacket (aq w)) \<le> int N \<longrightarrow>
        sint (mCurrentPacket (aq (refills rd w bufs))) =
          sint (mCurrentPacket (aq w)) + int (sum_list (packetsRead rd w bufs))
        \<and> sint (mCurrentPacket (aq w)) \<le> sint (mCurrentPacket (aq (refills rd w bufs)))
        \<and> sint (mCurrentPacket (aq (refills rd w bufs))) \<le> int N)"
proof (intro conjI impI)
  assume len: "length (mBuffers (aq w)) = kNumberBuffers"
  have "sum_list (primingReads env w) < 3 * 2 ^ 32"
    by (rule primingReads_bound)
  then have "sum_list (primingReads env w) < 2 ^ 63" by simp
  then show "sint (mCurrentPacket (aq (AQPlayerState_AllocateBuffersAndPrime env w))) =
        int (sum_list (primingReads env w))"
    by (simp only: prime_cursor[OF len] sint_of_nat_small)
next
  show "mCurrentPacket (aq (refills rd w bufs)) =
        mCurrentPacket (aq w) + of_nat (sum_list (packetsRead rd w bufs))"
    by (rule refills_cursor)
next
  assume a: "0 \<le> sint (mCurrentPacket (aq w)) \<and>
       sint (mCurrentPacket (aq w)) + int (sum_list (packetsRead rd w bufs)) < 2 ^ 63"
  then show eq: "sint (mCurrentPacket (aq (refills rd w bufs))) =
          sint (mCurrentPacket (aq w)) + int (sum_list (packetsRead rd w bufs))"
    by (simp only: refills_cursor sint_add_of_nat)
  show "sint (mCurrentPacket (aq w)) \<le> sint (mCurrentPacket (aq (refills rd w bufs)))"
    unfolding eq by simp
next
  assume a: "readsWithin N rd \<and> N < 2 ^ 63 \<and> 0 \<le> sint (mCurrentPacket (aq w)) \<and>
       sint (mCurrentPacket (aq w)) \<le> int N"
  then have b: "sint (mCurrentPacket (aq w)) + int (sum_list (packetsRead rd w bufs)) \<le> int N"
    using readsWithin_refills by blast
  moreover have "int N < 2 ^ 63" using a by simp
  ultimately have
    "sint (mCurrentPacket (aq w)) + int (sum_list (packetsRead rd w bufs)) < 2 ^ 63"
    by linarith
  then show eq: "sint (mCurrentPacket (aq (refills rd w bufs))) =
          sint (mCurrentPacket (aq w)) + int (sum_list (packetsRead rd w bufs))"
    using a by (simp only: refills_cursor sint_add_of_nat)
  show "sint (mCurrentPacket (aq w)) \<le> sint (mCurrentPacket (aq (refills rd w bufs)))"
    unfolding eq by simp
  show "sint (mCurrentPacket (aq (refills rd w bufs))) \<le> int N"
    using b unfolding eq by simp
qed

theorem cursor_is_sum_of_packets_read_witness:
  "length (mBuffers (aq playingWorld)) = kNumberBuffers
   \<and> sint (mCurrentPacket (aq (AQPlayerState_AllocateBuffersAndPrime sampleEnv playingWorld))) =
       int (sum_list (primingReads sampleEnv playingWorld))
   \<and> 0 \<le> sint (mCurrentPacket (aq playingWorld))
   \<and> sint (mCurrentPacket (aq playingWorld)) +
       int (sum_list (packetsRead (mockReader 30000 4) playingWorld [10, 11, 12])) < 2 ^ 63
   \<and> readsWithin 30000 (mockReader 30000 4) \<and> (30000 :: nat) < 2 ^ 63
   \<and> sint (mCurrentPacket (aq playingWorld)) \<le> int 30000
   \<and> packetsRead (mockReader 30000 4) playingWorld [10, 11, 12] = [22050, 7950, 0]
   \<and> sint (mCurrentPacket (aq (refills (mockReader 30000 4) playingWorld [10, 11, 12]))) = 30000
   \<and> sint (mCurrentPacket (aq (refills (mockReader 30000 4) playingWorld [10, 11, 12, 10])))
       \<le> int 30000"
proof -
  note t = cursor_is_sum_of_packets_read[of playingWorld sampleEnv "mockReader 30000 4"
      "[10, 11, 12]" 30000]
  note t' = cursor_is_sum_of_packets_read[of playingWorld sampleEnv "mockReader 30000 4"
      "[10, 11, 12, 10]" 30000]
  have len: "length (mBuffers (aq playingWorld)) = kNumberBuffers"
    by (rule playing_fields)
  have h: "0 \<le> sint (mCurrentPacket (aq playingWorld)) \<and>
       sint (mCurrentPacket (aq playingWorld)) +
       int (sum_list (packetsRead (mockReader 30000 4) playingWorld [10, 11, 12])) < 2 ^ 63"
    by (simp only: playing_packetsRead) (simp add: playing_fields)
  have g: "readsWithin 30000 (mockReader 30000 4) \<and> (30000 :: nat) < 2 ^ 63 \<and>
       0 \<le> sint (mCurrentPacket (aq playingWorld)) \<and>
       sint (mCurrentPacket (aq playingWorld)) \<le> int 30000"
    by (simp add: mockReader_readsWithin playing_fields)
  have 1: "sint (mCurrentPacket (aq (AQPlayerState_AllocateBuffersAndPrime sampleEnv
             playingWorld))) = int (sum_list (primingReads sampleEnv playingWorld))"
    using t len by blast
  have 2: "sint (mCurrentPacket (aq (refills (mockReader 30000 4) playingWorld [10, 11, 12]))) =
        sint (mCurrentPacket (aq playingWorld)) +
        int (sum_list (packetsRead (mockReader 30000 4) playingWorld [10, 11, 12]))"
    using t h by blast
  have 3: "sint (mCurrentPacket (aq (refills (mockReader 30000 4) playingWorld [10, 11, 12]))) =
        30000"
    unfolding 2 by (simp only: playing_packetsRead) (simp add: playing_fields)
  have 4: "sint (mCurrentPacket (aq (refills (mockReader 30000 4) playingWorld
             [10, 11, 12, 10]))) \<le> int 30000"
    using t' g by blast
  show ?thesis
    using len h g 1 3 4 playing_packetsRead by blast
qed

subsection \<open>Priming\<close>

text \<open>
  The loop of \<^verbatim>\<open>AQPlayerState_AllocateBuffersAndPrime\<close> is exactly three priming steps, on
  the buffers 0, 1 and 2 in this order, each the allocation of a buffer and the direct call
  of the callback on it. It starts no queue, and a buffer is handed to the sink by its
  priming call exactly when that call obtained packets.
\<close>

lemma prime_three_steps:
  assumes "length (mBuffers (aq w)) = kNumberBuffers"
  shows "AQPlayerState_AllocateBuffersAndPrime env w =
           primeStep env 2 (primeStep env 1 (primeStep env 0
             (w\<lparr>aq := (aq w)\<lparr>mCurrentPacket := 0\<rparr>\<rparr>)))
       \<and> startedQueues (trace (AQPlayerState_AllocateBuffersAndPrime env w)) =
           startedQueues (trace w)
       \<and> enqueuedBuffers (trace (AQPlayerState_AllocateBuffersAndPrime env w)) =
           enqueuedBuffers (trace w) @
           concat (map (\<lambda>k. if 0 < primingReads env w ! k then [allocateBuffer env k] else [])
                     [0, 1, 2])"
  using assms
  by (simp add: AQPlayerState_AllocateBuffersAndPrime_def prime_unroll primeStep_started
      primeStep_enqueued primingReads_def Let_def packetsObtained_AllocateBuffer_k)

lemma primeStep_mQueue: "mQueue (aq (primeStep env k w)) = mQueue (aq w)"
  by (simp add: primeStep_def HandleOutputBuffer_aq AllocateBuffer_k_def Let_def emit_def)

lemma prime_mQueue:
  assumes "length (mBuffers (aq w)) = kNumberBuffers"
  shows "mQueue (aq (AQPlayerState_AllocateBuffersAndPrime env w)) = mQueue (aq w)"
  using assms
  by (simp add: AQPlayerState_AllocateBuffersAndPrime_def prime_unroll primeStep_mQueue)

text \<open>
  What the priming steps read and what they leave of the session depends on the session
  they start from, not on the buffers or on the calls made before.
\<close>

lemma packetsObtained_cong:
  "aq w = aq w' \<Longrightarrow> packetsObtained rd w = packetsObtained rd w'"
  by (simp add: packetsObtained_def)

lemma primeStep_aq_cong:
  "aq w = aq w' \<Longrightarrow> aq (primeStep env k w) = aq (primeStep env k w')"
  by (simp add: primeStep_def HandleOutputBuffer_aq AllocateBuffer_k_def Let_def emit_def)

lemma primingReads_cong:
  assumes "aq w = aq w'"
  shows "primingReads env w = primingReads env w'"
proof -
  let ?a = "w\<lparr>aq := (aq w)\<lparr>mCurrentPacket := 0\<rparr>\<rparr>"
  let ?b = "w'\<lparr>aq := (aq w')\<lparr>mCurrentPacket := 0\<rparr>\<rparr>"
  have 0: "aq ?a = aq ?b" using assms by simp
  have 1: "aq (primeStep env 0 ?a) = aq (primeStep env 0 ?b)"
    using 0 by (rule primeStep_aq_cong)
  have 2: "aq (primeStep env 1 (primeStep env 0 ?a)) = aq (primeStep env 1 (primeStep env 0 ?b))"
    using 1 by (rule primeStep_aq_cong)
  show ?thesis
    unfolding primingReads_def Let_def packetsObtained_AllocateBuffer_k
    using packetsObtained_cong[OF 0] packetsObtained_cong[OF 1] packetsObtained_cong[OF 2]
    by simp
qed

lemma prime_aq_cong:
  assumes "aq w = aq w'" and "length (mBuffers (aq w)) = kNumberBuffers"
  shows "aq (AQPlayerState_AllocateBuffersAndPrime env w) =
         aq (AQPlayerState_AllocateBuffersAndPrime env w')"
proof -
  let ?a = "w\<lparr>aq := (aq w)\<lparr>mCurrentPacket := 0\<rparr>\<rparr>"
  let ?b = "w'\<lparr>aq := (aq w')\<lparr>mCurrentPacket := 0\<rparr>\<rparr>"
  have len: "length (mBuffers (aq ?a)) = kNumberBuffers"
    "length (mBuffers (aq ?b)) = kNumberBuffers"
    using assms by simp_all
  have 0: "aq ?a = aq ?b" using assms by simp
  have "aq (primeStep env 2 (primeStep env 1 (primeStep env 0 ?a))) =
        aq (primeStep env 2 (primeStep env 1 (primeStep env 0 ?b)))"
    by (intro primeStep_aq_cong 0)
  then show ?thesis
    by (simp only: AQPlayerState_AllocateBuffersAndPrime_def prime_unroll[OF len(1)]
        prime_unroll[OF len(2)])
qed

text \<open>
  The priming reads of the PCM session on the source of 100000 packets and on the source
  of 22050 packets: the second read of the short source obtains nothing and stops the
  session, and the third call returns at once.
\<close>

lemma stream_primingReads:
  "primingReads streamEnv playingWorld = [22050, 22050, 22050]"
  by (simp add: primingReads_def Let_def packetsObtained_AllocateBuffer_k packetsObtained_def
      primeStep_def HandleOutputBuffer_aq AllocateBuffer_k_def emit_def readPackets_def
      mockReader_def streamEnv_def sampleEnv_def playingWorld_def initialWorld_def)

lemma short_primingReads:
  "primingReads shortEnv playingWorld = [22050, 0, 0]"
  by (simp add: primingReads_def Let_def packetsObtained_AllocateBuffer_k packetsObtained_def
      primeStep_def HandleOutputBuffer_aq AllocateBuffer_k_def emit_def readPackets_def
      mockReader_def shortEnv_def sampleEnv_def playingWorld_def initialWorld_def)

lemma playing_session:
  "aq playingWorld = sessionAtPriming streamEnv 88200 22050"
  "aq playingWorld = sessionAtPriming shortEnv 88200 22050"
  "aq playingWorld = sessionAtPriming playEnv 88200 22050"
  by (simp_all add: sessionAtPriming_def playingWorld_def initialWorld_def streamEnv_def
      shortEnv_def playEnv_def sampleEnv_def isFormatVBR_def format_of_def)

lemma sessionAtPriming_fields:
  "length (mBuffers (sessionAtPriming env bs n)) = kNumberBuffers"
  "mQueue (sessionAtPriming env bs n) = newOutput_queue env"
  "mCurrentPacket (sessionAtPriming env bs n) = 0"
  "mIsRunning (sessionAtPriming env bs n)"
  by (simp_all add: sessionAtPriming_def)

subsection \<open>A session that asks for no packets\<close>

text \<open>
  When the packet count per buffer of the session is 0, a source that yields no more
  packets than it is asked for yields none: the first refill stops the session and hands
  nothing to the sink.
\<close>

lemma no_packets_asked_stops:
  assumes "mIsRunning (aq w)" and "mNumPacketsToRead (aq w) = 0"
    and "outNumPackets (readPackets rd (aq w)) \<le> mNumPacketsToRead (aq w)"
  shows "\<not> mIsRunning (aq (HandleOutputBuffer rd w inAQ buf))
       \<and> enqueuedBuffers (trace (HandleOutputBuffer rd w inAQ buf)) = enqueuedBuffers (trace w)
       \<and> last (trace (HandleOutputBuffer rd w inAQ buf)) = AudioQueueStop inAQ False"
  using assms
  by (simp add: HandleOutputBuffer_def Let_def emit_def enqueuedBuffers_append)

section \<open>Properties of the outcome of the process\<close>

lemmas message_defs = PrintResultCodes_messages_def PrintResultCodes_cases_def newline_def

lemmas result_code_defs =
  FourCC_def kAudioFilePermissionsError_def
  kAudioFileUnspecifiedError_def kAudioFileUnsupportedFileTypeError_def
  kAudioFileUnsupportedDataFormatError_def kAudioFileUnsupportedPropertyError_def
  kAudioFileBadPropertySizeError_def kAudioFileNotOptimizedError_def
  kAudioFileInvalidChunkError_def kAudioFileDoesNotAllow64BitDataSizeError_def
  kAudioFileInvalidPacketOffsetError_def kAudioFileInvalidFileError_def
  kAudioFileOperationNotSupportedError_def kAudioFileNotOpenError_def
  kAudioFileEndOfFileError_def kAudioFilePositionError_def kAudio_FileNotFoundError_def


lemma noErr_unlisted: "map_of PrintResultCodes_cases noErr = None"
  by (simp add: PrintResultCodes_cases_def result_code_defs noErr_def)

lemma not_found_listed:
  "map_of PrintResultCodes_cases kAudio_FileNotFoundError = Some ''File not found''"
  by (simp add: PrintResultCodes_cases_def result_code_defs)

subsection \<open>The steps of the initialisation\<close>

text \<open>
  What each step that can return leaves of the session, and that it neither starts a
  queue nor hands a buffer to the sink.
\<close>

lemma InitAudioFile_Inr:
  assumes "AQPlayerState_InitAudioFile env p w = Inr w'"
  shows "aq w' = (aq w)\<lparr>mAudioFile := openURL_file env\<rparr>
       \<and> startedQueues (trace w') = startedQueues (trace w)
       \<and> enqueuedBuffers (trace w') = enqueuedBuffers (trace w)"
  using assms
  by (auto simp add: AQPlayerState_InitAudioFile_def PrintResultCodes_def Let_def emit_def
      startedQueues_append enqueuedBuffers_append split: option.splits if_splits)

lemma InitBasicDescription_sink:
  "aq (AQPlayerState_InitBasicDescription env w) = (aq w)\<lparr>mDataFormat := dataFormat env\<rparr>
   \<and> startedQueues (trace (AQPlayerState_InitBasicDescription env w)) = startedQueues (trace w)
   \<and> enqueuedBuffers (trace (AQPlayerState_InitBasicDescription env w)) =
       enqueuedBuffers (trace w)"
  by (simp add: AQPlayerState_InitBasicDescription_def PrintBasicDescription_def emit_def
      startedQueues_append enqueuedBuffers_append)

lemma InitOutputQueue_Inr:
  assumes "AQPlayerState_InitOutputQueue env w = Inr w'"
  shows "aq w' = (aq w)\<lparr>mQueue := newOutput_queue env\<rparr>
       \<and> startedQueues (trace w') = startedQueues (trace w)
       \<and> enqueuedBuffers (trace w') = enqueuedBuffers (trace w)"
  using assms
  by (auto simp add: AQPlayerState_InitOutputQueue_def CheckError_def Let_def emit_def
      startedQueues_append enqueuedBuffers_append split: if_splits)

lemma InitSizes_Inr:
  assumes "AQPlayerState_InitSizes env w = Inr w'"
  shows "\<exists>bs n. DeriveBufferSize (mDataFormat (aq w)) (packetSizeUpperBound env) (Finite (1 / 2)) =
                  Inr (bs, n)
           \<and> aq w' = (aq w)\<lparr>bufferByteSize := bs, mNumPacketsToRead := n\<rparr>
           \<and> startedQueues (trace w') = startedQueues (trace w)
           \<and> enqueuedBuffers (trace w') = enqueuedBuffers (trace w)"
  using assms
  by (auto simp add: AQPlayerState_InitSizes_def Let_def emit_def
      startedQueues_append enqueuedBuffers_append split: sum.splits prod.splits)

lemma MagicCookie_sink:
  "startedQueues (trace (AQPlayerState_MagicCookie env w)) = startedQueues (trace w)
   \<and> enqueuedBuffers (trace (AQPlayerState_MagicCookie env w)) = enqueuedBuffers (trace w)"
  by (simp add: AQPlayerState_MagicCookie_def Let_def emit_def
      startedQueues_append enqueuedBuffers_append)

lemma InitAudioFile_aborts:
  assumes "map_of PrintResultCodes_cases (openURL_status env) = Some msg" and "\<not> NDEBUG env"
  shows "\<exists>w'. AQPlayerState_InitAudioFile env p w = Inl (Aborted, w') \<and>
           Stdout (msg @ newline) [] \<in> set (trace w')"
  using assms by (simp add: AQPlayerState_InitAudioFile_def PrintResultCodes_def Let_def emit_def)

lemma InitAudioFile_passes:
  assumes "openPasses env"
  shows "\<exists>w'. AQPlayerState_InitAudioFile env p w = Inr w'"
  using assms
  by (auto simp add: openPasses_def AQPlayerState_InitAudioFile_def PrintResultCodes_def Let_def
      split: option.splits)

lemma InitAudioFile_quiet:
  assumes "map_of PrintResultCodes_cases (openURL_status env) = None"
  shows "\<exists>w'. AQPlayerState_InitAudioFile env p w = Inr w' \<and>
               diagnostics (trace w') = diagnostics (trace w)"
  using assms
  by (simp add: AQPlayerState_InitAudioFile_def PrintResultCodes_def Let_def emit_def
      diagnostics_def message_defs)

lemma InitBasicDescription_format:
  "mDataFormat (aq (AQPlayerState_InitBasicDescription env w)) = dataFormat env"
  by (simp add: AQPlayerState_InitBasicDescription_def PrintBasicDescription_def emit_def)

lemma InitBasicDescription_quiet:
  "diagnostics (trace (AQPlayerState_InitBasicDescription env w)) = diagnostics (trace w)"
  by (simp add: AQPlayerState_InitBasicDescription_def PrintBasicDescription_def emit_def
      diagnostics_def message_defs)

lemma InitOutputQueue_fails:
  assumes "newOutput_status env \<noteq> noErr"
  shows "\<exists>w'. AQPlayerState_InitOutputQueue env w = Inl (Exit 1, w') \<and>
           last (trace w') = errorLine ''AudioQueueNewOutput '' (newOutput_status env)"
  using assms
  by (simp add: AQPlayerState_InitOutputQueue_def CheckError_def Let_def emit_def errorLine_def)

lemma InitOutputQueue_quiet:
  assumes "newOutput_status env = noErr"
  shows "\<exists>w'. AQPlayerState_InitOutputQueue env w = Inr w' \<and>
               mDataFormat (aq w') = mDataFormat (aq w) \<and>
               diagnostics (trace w') = diagnostics (trace w)"
  using assms
  by (simp add: AQPlayerState_InitOutputQueue_def CheckError_def Let_def emit_def
      diagnostics_def message_defs)

lemma InitSizes_quiet:
  assumes "DeriveBufferSize (mDataFormat (aq w)) (packetSizeUpperBound env) (Finite (1 / 2)) =
             Inr (bs, n)"
  shows "\<exists>w'. AQPlayerState_InitSizes env w = Inr w' \<and>
               diagnostics (trace w') = diagnostics (trace w)"
  using assms
  by (simp add: AQPlayerState_InitSizes_def Let_def emit_def diagnostics_def message_defs)

lemma HandleOutputBuffer_diagnostics:
  "diagnostics (trace (HandleOutputBuffer rd w q b)) = diagnostics (trace w)"
  by (simp add: HandleOutputBuffer_def Let_def emit_def diagnostics_def message_defs)

lemma refills_diagnostics:
  "diagnostics (trace (refills rd w bufs)) = diagnostics (trace w)"
  by (induction bufs arbitrary: w) (simp_all add: HandleOutputBuffer_diagnostics)

lemma AllocateBuffer_k_diagnostics:
  "diagnostics (trace (AllocateBuffer_k env k w)) = diagnostics (trace w)"
  by (simp add: AllocateBuffer_k_def Let_def emit_def diagnostics_def)

lemma loop_diagnostics:
  "diagnostics (trace (AllocateBuffersAndPrime_loop env k w)) = diagnostics (trace w)"
proof (induction env k w rule: AllocateBuffersAndPrime_loop.induct)
  case (1 env k w)
  show ?case
  proof (cases "k < kNumberBuffers")
    case True
    then show ?thesis
      using 1[OF True refl]
      by (subst AllocateBuffersAndPrime_loop.simps)
         (simp add: Let_def HandleOutputBuffer_diagnostics AllocateBuffer_k_diagnostics)
  next
    case False
    then show ?thesis
      by (subst AllocateBuffersAndPrime_loop.simps) simp
  qed
qed

lemma loop_keeps_stopped:
  "\<not> mIsRunning (aq w) \<Longrightarrow> \<not> mIsRunning (aq (AllocateBuffersAndPrime_loop env k w))"
proof (induction env k w rule: AllocateBuffersAndPrime_loop.induct)
  case (1 env k w)
  show ?case
  proof (cases "k < kNumberBuffers")
    case True
    have "\<not> mIsRunning (aq (HandleOutputBuffer (reader env) (AllocateBuffer_k env k w)
             (mQueue (aq (AllocateBuffer_k env k w)))
             (mBuffers (aq (AllocateBuffer_k env k w)) ! k)))"
      using "1.prems" by (simp add: HandleOutputBuffer_def AllocateBuffer_k_def Let_def emit_def)
    then show ?thesis
      using 1(1)[OF True refl]
      by (subst AllocateBuffersAndPrime_loop.simps) (simp add: Let_def True)
  next
    case False
    then show ?thesis
      using "1.prems" by (subst AllocateBuffersAndPrime_loop.simps) simp
  qed
qed

lemma prime_silent:
  assumes "reader env = silentReader"
  shows "\<not> mIsRunning (aq (AQPlayerState_AllocateBuffersAndPrime env w))"
  unfolding AQPlayerState_AllocateBuffersAndPrime_def
  by (subst AllocateBuffersAndPrime_loop.simps)
     (simp add: kNumberBuffers_def Let_def assms loop_keeps_stopped HandleOutputBuffer_silent)

lemma prime_diagnostics:
  "diagnostics (trace (AQPlayerState_AllocateBuffersAndPrime env w)) = diagnostics (trace w)"
  by (simp add: AQPlayerState_AllocateBuffersAndPrime_def loop_diagnostics)

lemma tail_quiet:
  "diagnostics (trace (AQPlayerState_SetGain (AQPlayerState_AllocateBuffersAndPrime env
     (AQPlayerState_MagicCookie env (AQPlayerState_AllocatePacketDescriptionsArray env w))))) =
   diagnostics (trace w)"
  by (simp add: AQPlayerState_SetGain_def emit_def diagnostics_def prime_diagnostics[unfolded diagnostics_def])
     (simp add: AQPlayerState_MagicCookie_def AQPlayerState_AllocatePacketDescriptionsArray_def
        Let_def emit_def message_defs)

lemma tail_silent:
  assumes "reader env = silentReader"
  shows "\<not> mIsRunning (aq (AQPlayerState_SetGain (AQPlayerState_AllocateBuffersAndPrime env w)))"
  using prime_silent[OF assms] by (simp add: AQPlayerState_SetGain_def emit_def)

subsection \<open>Initialisation as a whole\<close>

lemma Initialize_aborts:
  assumes "map_of PrintResultCodes_cases (openURL_status env) = Some msg" and "\<not> NDEBUG env"
  shows "\<exists>w'. AQPlayerState_Initialize env p w = Inl (Aborted, w') \<and>
           Stdout (msg @ newline) [] \<in> set (trace w')"
proof -
  obtain w' where
    "AQPlayerState_InitAudioFile env p (w\<lparr>aq := (aq w)\<lparr>mIsRunning := True\<rparr>\<rparr>) = Inl (Aborted, w')"
    and "Stdout (msg @ newline) [] \<in> set (trace w')"
    using InitAudioFile_aborts[OF assms] by blast
  then show ?thesis
    by (simp add: AQPlayerState_Initialize_def and_then_def)
qed

lemma Initialize_newOutput_fails:
  assumes "openPasses env" and "newOutput_status env \<noteq> noErr"
  shows "\<exists>w'. AQPlayerState_Initialize env p w = Inl (Exit 1, w') \<and>
           last (trace w') = errorLine ''AudioQueueNewOutput '' (newOutput_status env)"
proof -
  obtain w1 where
    1: "AQPlayerState_InitAudioFile env p (w\<lparr>aq := (aq w)\<lparr>mIsRunning := True\<rparr>\<rparr>) = Inr w1"
    using InitAudioFile_passes[OF assms(1)] by blast
  obtain w' where
    "AQPlayerState_InitOutputQueue env (AQPlayerState_InitBasicDescription env w1) =
       Inl (Exit 1, w')"
    and "last (trace w') = errorLine ''AudioQueueNewOutput '' (newOutput_status env)"
    using InitOutputQueue_fails[OF assms(2)] by blast
  then show ?thesis
    using 1 by (simp add: AQPlayerState_Initialize_def and_then_def)
qed

lemma Initialize_passes:
  assumes "openPasses env" and "newOutput_status env = noErr"
    and "DeriveBufferSize (dataFormat env) (packetSizeUpperBound env) (Finite (1 / 2)) =
           Inr (bs, n)"
  shows "\<exists>w'. AQPlayerState_Initialize env p w = Inr w'"
proof -
  obtain w1 where
    1: "AQPlayerState_InitAudioFile env p (w\<lparr>aq := (aq w)\<lparr>mIsRunning := True\<rparr>\<rparr>) = Inr w1"
    using InitAudioFile_passes[OF assms(1)] by blast
  obtain w2 where
    2: "AQPlayerState_InitOutputQueue env (AQPlayerState_InitBasicDescription env w1) = Inr w2"
    and f: "mDataFormat (aq w2) = dataFormat env"
    using InitOutputQueue_quiet[OF assms(2)] InitBasicDescription_format by metis
  obtain w3 where 3: "AQPlayerState_InitSizes env w2 = Inr w3"
    using InitSizes_quiet[of w2 env bs n] assms(3) f by auto
  show ?thesis
    using 1 2 3 by (simp add: AQPlayerState_Initialize_def and_then_def)
qed

lemma main_startup_start_fails:
  assumes "openPasses env" and "newOutput_status env = noErr"
    and "DeriveBufferSize (dataFormat env) (packetSizeUpperBound env) (Finite (1 / 2)) =
           Inr (bs, n)"
    and "start_status env \<noteq> noErr"
  shows "\<exists>w'. main_startup env = Inl (Exit 1, w') \<and>
           last (trace w') = errorLine ''AudioQueueStart'' (start_status env)"
proof -
  obtain w where "AQPlayerState_Initialize env audioFileName initialWorld = Inr w"
    using Initialize_passes[OF assms(1,2,3)] by blast
  then show ?thesis
    using assms(4)
    by (simp add: main_startup_def and_then_def CheckError_def emit_def errorLine_def)
qed

lemma main_startup_passes:
  assumes "openPasses env" and "newOutput_status env = noErr"
    and "DeriveBufferSize (dataFormat env) (packetSizeUpperBound env) (Finite (1 / 2)) =
           Inr (bs, n)"
    and "start_status env = noErr"
  shows "\<exists>w'. main_startup env = Inr w'"
proof -
  obtain w where "AQPlayerState_Initialize env audioFileName initialWorld = Inr w"
    using Initialize_passes[OF assms(1,2,3)] by blast
  then show ?thesis
    using assms(4) by (simp add: main_startup_def and_then_def CheckError_def emit_def)
qed

text \<open>
  When the status of the open has no \<^verbatim>\<open>case\<close> and the two checked calls succeed, the
  program reaches the run loop without a diagnostic; with a source that yields nothing,
  the session has stopped by then.
\<close>

lemma startup_quiet:
  assumes "map_of PrintResultCodes_cases (openURL_status env) = None"
    and "newOutput_status env = noErr"
    and "DeriveBufferSize (dataFormat env) (packetSizeUpperBound env) (Finite (1 / 2)) =
           Inr (bs, n)"
    and "start_status env = noErr"
  shows "\<exists>w0. main_startup env = Inr w0 \<and> diagnostics (trace w0) = [] \<and>
              (reader env = silentReader \<longrightarrow> \<not> mIsRunning (aq w0))"
proof -
  let ?w = "initialWorld\<lparr>aq := (aq initialWorld)\<lparr>mIsRunning := True\<rparr>\<rparr>"
  obtain w1 where 1: "AQPlayerState_InitAudioFile env audioFileName ?w = Inr w1"
    and d1: "diagnostics (trace w1) = diagnostics (trace ?w)"
    using InitAudioFile_quiet[OF assms(1)] by blast
  obtain w2 where
    2: "AQPlayerState_InitOutputQueue env (AQPlayerState_InitBasicDescription env w1) = Inr w2"
    and f2: "mDataFormat (aq w2) = mDataFormat (aq (AQPlayerState_InitBasicDescription env w1))"
    and d2: "diagnostics (trace w2) =
               diagnostics (trace (AQPlayerState_InitBasicDescription env w1))"
    using InitOutputQueue_quiet[OF assms(2)] by blast
  have f2': "mDataFormat (aq w2) = dataFormat env"
    using f2 by (simp add: InitBasicDescription_format)
  obtain w3 where 3: "AQPlayerState_InitSizes env w2 = Inr w3"
    and d3: "diagnostics (trace w3) = diagnostics (trace w2)"
    using InitSizes_quiet[of w2 env bs n] assms(3) f2' by auto
  let ?w4 = "AQPlayerState_SetGain (AQPlayerState_AllocateBuffersAndPrime env
     (AQPlayerState_MagicCookie env (AQPlayerState_AllocatePacketDescriptionsArray env w3)))"
  have init: "AQPlayerState_Initialize env audioFileName initialWorld = Inr ?w4"
    using 1 2 3 by (simp add: AQPlayerState_Initialize_def and_then_def)
  have d4: "diagnostics (trace ?w4) = []"
    using d1 d2 d3 by (simp add: tail_quiet InitBasicDescription_quiet)
                      (simp add: initialWorld_def diagnostics_def)
  let ?w0 = "emit [Stdout (''Starting audio queue: %p'' @ newline) [ArgPtr (mQueue (aq ?w4))],
                     AudioQueueStart (mQueue (aq ?w4))] ?w4"
  have "main_startup env = Inr ?w0"
    using init assms(4) by (simp add: main_startup_def and_then_def CheckError_def)
  moreover have "diagnostics (trace ?w0) = []"
    using d4 by (simp add: emit_def diagnostics_def message_defs)
  moreover have "reader env = silentReader \<longrightarrow> \<not> mIsRunning (aq ?w0)"
    using tail_silent[of env] by (simp add: emit_def)
  ultimately show ?thesis by blast
qed

subsection \<open>The descriptor pointer\<close>

text \<open>
  Initialisation leaves the descriptor pointer following the format when the format is
  constant-bit-rate, and also when it is variable-bit-rate and \<^verbatim>\<open>malloc\<close> does not return
  null; the refills keep it so.
\<close>

lemma AllocateBuffer_k_descsFollowFormat:
  "descsFollowFormat (aq (AllocateBuffer_k env k w)) = descsFollowFormat (aq w)"
  by (simp add: AllocateBuffer_k_def Let_def emit_def descsFollowFormat_def)

lemma loop_descsFollowFormat:
  "descsFollowFormat (aq (AllocateBuffersAndPrime_loop env k w)) = descsFollowFormat (aq w)"
proof (induction env k w rule: AllocateBuffersAndPrime_loop.induct)
  case (1 env k w)
  show ?case
  proof (cases "k < kNumberBuffers")
    case True
    then show ?thesis
      using 1[OF True refl]
      by (subst AllocateBuffersAndPrime_loop.simps)
         (simp add: Let_def HandleOutputBuffer_descsFollowFormat
            AllocateBuffer_k_descsFollowFormat)
  next
    case False
    then show ?thesis
      by (subst AllocateBuffersAndPrime_loop.simps) simp
  qed
qed

lemma refills_descsFollowFormat:
  "descsFollowFormat (aq (refills rd w bufs)) = descsFollowFormat (aq w)"
  by (induction bufs arbitrary: w) (simp_all add: HandleOutputBuffer_descsFollowFormat)

lemma prime_descsFollowFormat:
  "descsFollowFormat (aq (AQPlayerState_AllocateBuffersAndPrime env w)) =
     descsFollowFormat (aq w)"
  by (simp add: AQPlayerState_AllocateBuffersAndPrime_def loop_descsFollowFormat)
     (simp add: descsFollowFormat_def)

lemma SetGain_aq: "aq (AQPlayerState_SetGain w) = aq w"
  by (simp add: AQPlayerState_SetGain_def emit_def)

lemma MagicCookie_aq: "aq (AQPlayerState_MagicCookie env w) = aq w"
  by (simp add: AQPlayerState_MagicCookie_def Let_def emit_def)

lemma Initialize_descsFollowFormat:
  assumes "AQPlayerState_Initialize env p w = Inr w'"
    and "malloc_packetDescs env \<noteq> NULL \<or> \<not> isFormatVBR (dataFormat env)"
  shows "descsFollowFormat (aq w')"
proof -
  from assms(1) obtain w1 w2 w3 where
    2: "AQPlayerState_InitOutputQueue env (AQPlayerState_InitBasicDescription env w1) = Inr w2"
    and 3: "AQPlayerState_InitSizes env w2 = Inr w3"
    and w': "w' = AQPlayerState_SetGain (AQPlayerState_AllocateBuffersAndPrime env
                    (AQPlayerState_MagicCookie env
                       (AQPlayerState_AllocatePacketDescriptionsArray env w3)))"
    by (auto simp add: AQPlayerState_Initialize_def and_then_def split: sum.splits)
  have "mDataFormat (aq w3) = dataFormat env"
    using InitSizes_Inr[OF 3] InitOutputQueue_Inr[OF 2] InitBasicDescription_sink[of env w1]
    by auto
  then have "descsFollowFormat (aq (AQPlayerState_AllocatePacketDescriptionsArray env w3))"
    using assms(2) by (auto simp add: AllocatePacketDescriptionsArray_aq descsFollowFormat_def)
  then show ?thesis
    unfolding w' by (simp only: SetGain_aq prime_descsFollowFormat MagicCookie_aq)
qed

subsection \<open>Priming and the start of the queue\<close>

text \<open>
  When \<^verbatim>\<open>main\<close> gets past \<^verbatim>\<open>AudioQueueStart\<close>, the session that priming started from
  is \<open>sessionAtPriming\<close> with the sizes of \<^verbatim>\<open>DeriveBufferSize\<close>, no queue had been
  started and no buffer enqueued before priming, and after priming the program only sets
  the volume, prints one line and starts the queue.
\<close>

lemma startup_reaches_priming:
  assumes "main_startup env = Inr w0"
  shows "\<exists>w bs n.
      DeriveBufferSize (dataFormat env) (packetSizeUpperBound env) (Finite (1 / 2)) = Inr (bs, n)
    \<and> aq w = sessionAtPriming env bs n
    \<and> startedQueues (trace w) = [] \<and> enqueuedBuffers (trace w) = []
    \<and> trace w0 = trace (AQPlayerState_AllocateBuffersAndPrime env w) @
        [AudioQueueSetParameter_Volume (newOutput_queue env),
         Stdout (''Starting audio queue: %p'' @ newline) [ArgPtr (newOutput_queue env)],
         AudioQueueStart (newOutput_queue env)]
    \<and> aq w0 = aq (AQPlayerState_AllocateBuffersAndPrime env w)"
proof -
  let ?i = "initialWorld\<lparr>aq := (aq initialWorld)\<lparr>mIsRunning := True\<rparr>\<rparr>"
  from assms obtain w' where
    init: "AQPlayerState_Initialize env audioFileName initialWorld = Inr w'"
    and w0: "w0 = emit [Stdout (''Starting audio queue: %p'' @ newline) [ArgPtr (mQueue (aq w'))],
                        AudioQueueStart (mQueue (aq w'))] w'"
    by (auto simp add: main_startup_def and_then_def CheckError_def split: sum.splits if_splits)
  from init obtain w1 w2 w3 where
    1: "AQPlayerState_InitAudioFile env audioFileName ?i = Inr w1"
    and 2: "AQPlayerState_InitOutputQueue env (AQPlayerState_InitBasicDescription env w1) = Inr w2"
    and 3: "AQPlayerState_InitSizes env w2 = Inr w3"
    and w': "w' = AQPlayerState_SetGain (AQPlayerState_AllocateBuffersAndPrime env
                    (AQPlayerState_MagicCookie env
                       (AQPlayerState_AllocatePacketDescriptionsArray env w3)))"
    by (auto simp add: AQPlayerState_Initialize_def and_then_def split: sum.splits)
  let ?w = "AQPlayerState_MagicCookie env (AQPlayerState_AllocatePacketDescriptionsArray env w3)"
  note a1 = InitAudioFile_Inr[OF 1]
  note a2 = InitOutputQueue_Inr[OF 2]
  note b = InitBasicDescription_sink[of env w1]
  from InitSizes_Inr[OF 3] obtain bs n where
    sz: "DeriveBufferSize (mDataFormat (aq w2)) (packetSizeUpperBound env) (Finite (1 / 2)) =
           Inr (bs, n)"
    and a3: "aq w3 = (aq w2)\<lparr>bufferByteSize := bs, mNumPacketsToRead := n\<rparr>"
    and s3: "startedQueues (trace w3) = startedQueues (trace w2)"
    and e3: "enqueuedBuffers (trace w3) = enqueuedBuffers (trace w2)"
    by blast
  have f2: "mDataFormat (aq w2) = dataFormat env"
    using a2 b by simp
  have sizes: "DeriveBufferSize (dataFormat env) (packetSizeUpperBound env) (Finite (1 / 2)) =
                 Inr (bs, n)"
    using sz f2 by simp
  have session: "aq ?w = sessionAtPriming env bs n"
    using a1 a2 b a3
    by (simp add: MagicCookie_aq AllocatePacketDescriptionsArray_aq sessionAtPriming_def
        initialWorld_def)
  have started: "startedQueues (trace ?w) = []"
    using a1 a2 b s3
    by (simp add: MagicCookie_sink AllocatePacketDescriptionsArray_trace initialWorld_def)
  have enqueued: "enqueuedBuffers (trace ?w) = []"
    using a1 a2 b e3
    by (simp add: MagicCookie_sink AllocatePacketDescriptionsArray_trace initialWorld_def)
  have q: "mQueue (aq w') = newOutput_queue env"
    unfolding w' by (simp add: SetGain_aq prime_mQueue session sessionAtPriming_fields)
  have q': "mQueue (aq (AQPlayerState_AllocateBuffersAndPrime env ?w)) = newOutput_queue env"
    by (simp add: prime_mQueue session sessionAtPriming_fields)
  have tr: "trace w0 = trace (AQPlayerState_AllocateBuffersAndPrime env ?w) @
        [AudioQueueSetParameter_Volume (newOutput_queue env),
         Stdout (''Starting audio queue: %p'' @ newline) [ArgPtr (newOutput_queue env)],
         AudioQueueStart (newOutput_queue env)]"
    unfolding w0 q unfolding w' by (simp add: emit_def AQPlayerState_SetGain_def q')
  have "aq w0 = aq (AQPlayerState_AllocateBuffersAndPrime env ?w)"
    unfolding w0 w' by (simp add: emit_def AQPlayerState_SetGain_def)
  then show ?thesis
    using sizes session started enqueued tr by blast
qed

text \<open>The calls to the sink in the whole of such a start.\<close>

lemma startup_sink_calls:
  assumes "main_startup env = Inr w0"
  shows "\<exists>w bs n.
      DeriveBufferSize (dataFormat env) (packetSizeUpperBound env) (Finite (1 / 2)) = Inr (bs, n)
    \<and> aq w = sessionAtPriming env bs n
    \<and> startedQueues (trace w) = [] \<and> enqueuedBuffers (trace w) = []
    \<and> startedQueues (trace (AQPlayerState_AllocateBuffersAndPrime env w)) = []
    \<and> trace w0 = trace (AQPlayerState_AllocateBuffersAndPrime env w) @
        [AudioQueueSetParameter_Volume (newOutput_queue env),
         Stdout (''Starting audio queue: %p'' @ newline) [ArgPtr (newOutput_queue env)],
         AudioQueueStart (newOutput_queue env)]
    \<and> startedQueues (trace w0) = [newOutput_queue env]
    \<and> enqueuedBuffers (trace w0) =
        concat (map (\<lambda>k. if 0 < primingReads env w ! k then [allocateBuffer env k] else [])
                  [0, 1, 2])"
proof -
  from startup_reaches_priming[OF assms] obtain w bs n where
    sizes: "DeriveBufferSize (dataFormat env) (packetSizeUpperBound env) (Finite (1 / 2)) =
              Inr (bs, n)"
    and session: "aq w = sessionAtPriming env bs n"
    and started: "startedQueues (trace w) = []" and enqueued: "enqueuedBuffers (trace w) = []"
    and tr: "trace w0 = trace (AQPlayerState_AllocateBuffersAndPrime env w) @
        [AudioQueueSetParameter_Volume (newOutput_queue env),
         Stdout (''Starting audio queue: %p'' @ newline) [ArgPtr (newOutput_queue env)],
         AudioQueueStart (newOutput_queue env)]"
    by blast
  have len: "length (mBuffers (aq w)) = kNumberBuffers"
    by (simp add: session sessionAtPriming_fields)
  note p = prime_three_steps[OF len, of env]
  have "startedQueues (trace (AQPlayerState_AllocateBuffersAndPrime env w)) =
          startedQueues (trace w)"
    using p by blast
  then have ps: "startedQueues (trace (AQPlayerState_AllocateBuffersAndPrime env w)) = []"
    by (simp only: started)
  have "enqueuedBuffers (trace (AQPlayerState_AllocateBuffersAndPrime env w)) =
          enqueuedBuffers (trace w) @
          concat (map (\<lambda>k. if 0 < primingReads env w ! k then [allocateBuffer env k] else [])
                    [0, 1, 2])"
    using p by blast
  then have pe: "enqueuedBuffers (trace (AQPlayerState_AllocateBuffersAndPrime env w)) =
        concat (map (\<lambda>k. if 0 < primingReads env w ! k then [allocateBuffer env k] else [])
                  [0, 1, 2])"
    by (simp only: enqueued append_Nil)
  have s0: "startedQueues (trace w0) = [newOutput_queue env]"
    unfolding tr by (simp add: startedQueues_append ps)
  have e0: "enqueuedBuffers (trace w0) =
        concat (map (\<lambda>k. if 0 < primingReads env w ! k then [allocateBuffer env k] else [])
                  [0, 1, 2])"
    unfolding tr by (simp add: enqueuedBuffers_append pe)
  show ?thesis
    using sizes session started enqueued ps tr s0 e0 by blast
qed

text \<open>The sample runs on the PCM file get past \<^verbatim>\<open>AudioQueueStart\<close>.\<close>

lemma sample_startups:
  "\<exists>w0. main_startup shortEnv = Inr w0" "\<exists>w0. main_startup streamEnv = Inr w0"
  "\<exists>w0. main_startup playEnv = Inr w0"
proof -
  show "\<exists>w0. main_startup shortEnv = Inr w0"
    by (rule main_startup_passes[where bs = 88200 and n = 22050])
       (simp_all add: shortEnv_def sampleEnv_def openPasses_def noErr_unlisted pcm_sizes)
  show "\<exists>w0. main_startup streamEnv = Inr w0"
    by (rule main_startup_passes[where bs = 88200 and n = 22050])
       (simp_all add: streamEnv_def sampleEnv_def openPasses_def noErr_unlisted pcm_sizes)
  show "\<exists>w0. main_startup playEnv = Inr w0"
    by (rule main_startup_passes[where bs = 88200 and n = 22050])
       (simp_all add: playEnv_def sampleEnv_def openPasses_def noErr_unlisted pcm_sizes)
qed

lemma sample_sizes:
  "DeriveBufferSize (dataFormat shortEnv) (packetSizeUpperBound shortEnv) (Finite (1 / 2)) =
     Inr (88200, 22050)"
  "DeriveBufferSize (dataFormat streamEnv) (packetSizeUpperBound streamEnv) (Finite (1 / 2)) =
     Inr (88200, 22050)"
  "DeriveBufferSize (dataFormat playEnv) (packetSizeUpperBound playEnv) (Finite (1 / 2)) =
     Inr (88200, 22050)"
  by (simp_all add: shortEnv_def streamEnv_def playEnv_def sampleEnv_def pcm_sizes)

text \<open>
  The run on the variable-bit-rate file in which \<^verbatim>\<open>malloc\<close> fails gets past
  \<^verbatim>\<open>AudioQueueStart\<close> as well, and its priming starts from the session with the null
  descriptor pointer: the program does not look at what \<^verbatim>\<open>malloc\<close> returned.
\<close>

lemma vbr_session_reached:
  "\<exists>w0 w. main_startup vbrEnv = Inr w0
     \<and> aq w = sessionAtPriming vbrEnv 16537 21
     \<and> mPacketDescs (aq w) = NULL \<and> isFormatVBR (mDataFormat (aq w))
     \<and> trace w0 = trace (AQPlayerState_AllocateBuffersAndPrime vbrEnv w) @
         [AudioQueueSetParameter_Volume (newOutput_queue vbrEnv),
          Stdout (''Starting audio queue: %p'' @ newline) [ArgPtr (newOutput_queue vbrEnv)],
          AudioQueueStart (newOutput_queue vbrEnv)]"
proof -
  have sz: "DeriveBufferSize (dataFormat vbrEnv) (packetSizeUpperBound vbrEnv) (Finite (1 / 2)) =
              Inr (16537, 21)"
    by (simp add: vbr_fields aac_sizes)
  have "\<exists>w0. main_startup vbrEnv = Inr w0"
    by (rule main_startup_passes[where bs = 16537 and n = 21])
       (simp_all add: sz, simp_all add: vbrEnv_def sampleEnv_def openPasses_def noErr_unlisted)
  then obtain w0 where w0: "main_startup vbrEnv = Inr w0" by blast
  from startup_reaches_priming[OF w0] obtain w bs n where
    sizes: "DeriveBufferSize (dataFormat vbrEnv) (packetSizeUpperBound vbrEnv)
              (Finite (1 / 2)) = Inr (bs, n)"
    and session: "aq w = sessionAtPriming vbrEnv bs n"
    and tr: "trace w0 = trace (AQPlayerState_AllocateBuffersAndPrime vbrEnv w) @
         [AudioQueueSetParameter_Volume (newOutput_queue vbrEnv),
          Stdout (''Starting audio queue: %p'' @ newline) [ArgPtr (newOutput_queue vbrEnv)],
          AudioQueueStart (newOutput_queue vbrEnv)]"
    by blast
  have "bs = 16537 \<and> n = 21" using sizes by (simp add: sz)
  then have s: "aq w = sessionAtPriming vbrEnv 16537 21" using session by simp
  have "mPacketDescs (aq w) = NULL" "isFormatVBR (mDataFormat (aq w))"
    unfolding s
    by (simp_all add: sessionAtPriming_def vbr_fields)
       (simp_all add: isFormatVBR_def format_of_def)
  then show ?thesis
    using w0 s tr by blast
qed

text \<open>
  Claim C7, as the specification states it: before the sink is started the refill step is
  invoked once for each of the three buffers, so that all three buffers are queued before
  playback begins. The last part fails on a short source. With the source of 22050
  packets, which the first buffer takes whole, the priming reads obtain 22050, 0 and 0
  packets: when \<^verbatim>\<open>AudioQueueStart\<close> is called, as the last call of the start, one buffer has
  been enqueued, not three.
\<close>

theorem short_source_counterexample:
  "DeriveBufferSize (dataFormat shortEnv) (packetSizeUpperBound shortEnv) (Finite (1 / 2)) =
     Inr (88200, 22050)
   \<and> aq playingWorld = sessionAtPriming shortEnv 88200 22050
   \<and> primingReads shortEnv playingWorld = [22050, 0, 0]
   \<and> map_option enqueuedBuffers (startupTrace shortEnv) = Some [10]
   \<and> map_option startedQueues (startupTrace shortEnv) = Some [1]
   \<and> map_option last (startupTrace shortEnv) = Some (AudioQueueStart 1)
   \<and> length [10 :: AudioQueueBufferRef] < kNumberBuffers"
proof -
  obtain w0 where w0: "main_startup shortEnv = Inr w0"
    using sample_startups(1) by blast
  from startup_sink_calls[OF w0] obtain w bs n where
    sizes: "DeriveBufferSize (dataFormat shortEnv) (packetSizeUpperBound shortEnv)
              (Finite (1 / 2)) = Inr (bs, n)"
    and session: "aq w = sessionAtPriming shortEnv bs n"
    and tr: "trace w0 = trace (AQPlayerState_AllocateBuffersAndPrime shortEnv w) @
        [AudioQueueSetParameter_Volume (newOutput_queue shortEnv),
         Stdout (''Starting audio queue: %p'' @ newline) [ArgPtr (newOutput_queue shortEnv)],
         AudioQueueStart (newOutput_queue shortEnv)]"
    and s0: "startedQueues (trace w0) = [newOutput_queue shortEnv]"
    and e0: "enqueuedBuffers (trace w0) =
        concat (map (\<lambda>k. if 0 < primingReads shortEnv w ! k then [allocateBuffer shortEnv k]
                          else []) [0, 1, 2])"
    by blast
  have "bs = 88200 \<and> n = 22050" using sizes by (simp add: sample_sizes)
  then have "aq w = sessionAtPriming shortEnv 88200 22050" using session by simp
  then have "aq w = aq playingWorld" by (simp only: playing_session(2))
  then have reads: "primingReads shortEnv w = [22050, 0, 0]"
    using primingReads_cong[of w playingWorld shortEnv] by (simp add: short_primingReads)
  have q: "newOutput_queue shortEnv = 1" "allocateBuffer shortEnv 0 = 10"
    by (simp_all add: shortEnv_def sampleEnv_def)
  have e: "enqueuedBuffers (trace w0) = [10]"
    unfolding e0 reads by (simp add: q)
  have s: "startedQueues (trace w0) = [1]"
    unfolding s0 by (simp add: q)
  have l: "last (trace w0) = AudioQueueStart 1"
    unfolding tr by (simp add: q)
  have "startupTrace shortEnv = Some (trace w0)"
    by (simp add: startupTrace_def w0)
  then show ?thesis
    using e s l playing_session(2)
    by (simp add: sample_sizes short_primingReads kNumberBuffers_def)
qed

text \<open>
  Claim C7, amended: whenever \<^verbatim>\<open>main\<close> gets past \<^verbatim>\<open>AudioQueueStart\<close>, priming started
  from the session \<open>sessionAtPriming\<close>, with no queue started and no buffer enqueued; it
  was exactly three priming steps, on the buffers 0, 1 and 2 in this order, each the
  allocation of a buffer followed by the direct call of the refill callback on it; it
  started no queue; and all that the program did after it was to set the volume, print one
  line and call \<^verbatim>\<open>AudioQueueStart\<close>, its only start of a queue. The buffers enqueued by
  then are those whose priming read obtained packets, in the order of their allocation:
  as many buffers are queued before playback begins as priming reads obtained packets, all
  three when every priming read obtains packets.
\<close>

theorem priming_before_start:
  assumes "main_startup env = Inr w0"
  shows "\<exists>w bs n.
      DeriveBufferSize (dataFormat env) (packetSizeUpperBound env) (Finite (1 / 2)) = Inr (bs, n)
    \<and> aq w = sessionAtPriming env bs n
    \<and> startedQueues (trace w) = [] \<and> enqueuedBuffers (trace w) = []
    \<and> AQPlayerState_AllocateBuffersAndPrime env w =
        primeStep env 2 (primeStep env 1 (primeStep env 0
          (w\<lparr>aq := (aq w)\<lparr>mCurrentPacket := 0\<rparr>\<rparr>)))
    \<and> startedQueues (trace (AQPlayerState_AllocateBuffersAndPrime env w)) = []
    \<and> trace w0 = trace (AQPlayerState_AllocateBuffersAndPrime env w) @
        [AudioQueueSetParameter_Volume (newOutput_queue env),
         Stdout (''Starting audio queue: %p'' @ newline) [ArgPtr (newOutput_queue env)],
         AudioQueueStart (newOutput_queue env)]
    \<and> startedQueues (trace w0) = [newOutput_queue env]
    \<and> enqueuedBuffers (trace w0) =
        concat (map (\<lambda>k. if 0 < primingReads env w ! k then [allocateBuffer env k] else [])
                  [0, 1, 2])
    \<and> length (enqueuedBuffers (trace w0)) = length (filter (\<lambda>p. 0 < p) (primingReads env w))"
proof -
  from startup_sink_calls[OF assms] obtain w bs n where
    sizes: "DeriveBufferSize (dataFormat env) (packetSizeUpperBound env) (Finite (1 / 2)) =
              Inr (bs, n)"
    and session: "aq w = sessionAtPriming env bs n"
    and started: "startedQueues (trace w) = []" and enqueued: "enqueuedBuffers (trace w) = []"
    and ps: "startedQueues (trace (AQPlayerState_AllocateBuffersAndPrime env w)) = []"
    and tr: "trace w0 = trace (AQPlayerState_AllocateBuffersAndPrime env w) @
        [AudioQueueSetParameter_Volume (newOutput_queue env),
         Stdout (''Starting audio queue: %p'' @ newline) [ArgPtr (newOutput_queue env)],
         AudioQueueStart (newOutput_queue env)]"
    and s0: "startedQueues (trace w0) = [newOutput_queue env]"
    and e0: "enqueuedBuffers (trace w0) =
        concat (map (\<lambda>k. if 0 < primingReads env w ! k then [allocateBuffer env k] else [])
                  [0, 1, 2])"
    by blast
  have len: "length (mBuffers (aq w)) = kNumberBuffers"
    by (simp add: session sessionAtPriming_fields)
  have unroll: "AQPlayerState_AllocateBuffersAndPrime env w =
        primeStep env 2 (primeStep env 1 (primeStep env 0
          (w\<lparr>aq := (aq w)\<lparr>mCurrentPacket := 0\<rparr>\<rparr>)))"
    using prime_three_steps[OF len, of env] by blast
  have l0: "length (enqueuedBuffers (trace w0)) =
              length (filter (\<lambda>p. 0 < p) (primingReads env w))"
    unfolding e0 by (simp add: primingReads_def Let_def)
  show ?thesis
    using sizes session started enqueued unroll ps tr s0 e0 l0 by blast
qed

theorem priming_before_start_witness:
  "DeriveBufferSize (dataFormat streamEnv) (packetSizeUpperBound streamEnv) (Finite (1 / 2)) =
     Inr (88200, 22050)
   \<and> aq playingWorld = sessionAtPriming streamEnv 88200 22050
   \<and> primingReads streamEnv playingWorld = [22050, 22050, 22050]
   \<and> map_option enqueuedBuffers (startupTrace streamEnv) = Some [10, 11, 12]
   \<and> map_option startedQueues (startupTrace streamEnv) = Some [1]
   \<and> map_option last (startupTrace streamEnv) = Some (AudioQueueStart 1)"
proof -
  obtain w0 where w0: "main_startup streamEnv = Inr w0"
    using sample_startups(2) by blast
  from priming_before_start[OF w0] obtain w bs n where
    sizes: "DeriveBufferSize (dataFormat streamEnv) (packetSizeUpperBound streamEnv)
              (Finite (1 / 2)) = Inr (bs, n)"
    and session: "aq w = sessionAtPriming streamEnv bs n"
    and tr: "trace w0 = trace (AQPlayerState_AllocateBuffersAndPrime streamEnv w) @
        [AudioQueueSetParameter_Volume (newOutput_queue streamEnv),
         Stdout (''Starting audio queue: %p'' @ newline) [ArgPtr (newOutput_queue streamEnv)],
         AudioQueueStart (newOutput_queue streamEnv)]"
    and s0: "startedQueues (trace w0) = [newOutput_queue streamEnv]"
    and e0: "enqueuedBuffers (trace w0) =
        concat (map (\<lambda>k. if 0 < primingReads streamEnv w ! k then [allocateBuffer streamEnv k]
                          else []) [0, 1, 2])"
    by blast
  have "bs = 88200 \<and> n = 22050" using sizes by (simp add: sample_sizes)
  then have "aq w = sessionAtPriming streamEnv 88200 22050" using session by simp
  then have "aq w = aq playingWorld" by (simp only: playing_session(1))
  then have reads: "primingReads streamEnv w = [22050, 22050, 22050]"
    using primingReads_cong[of w playingWorld streamEnv] by (simp add: stream_primingReads)
  have q: "newOutput_queue streamEnv = 1" "allocateBuffer streamEnv 0 = 10"
    "allocateBuffer streamEnv (Suc 0) = 11" "allocateBuffer streamEnv 2 = 12"
    by (simp_all add: streamEnv_def sampleEnv_def)
  have e: "enqueuedBuffers (trace w0) = [10, 11, 12]"
    unfolding e0 reads by (simp add: q)
  have s: "startedQueues (trace w0) = [1]"
    unfolding s0 by (simp add: q)
  have l: "last (trace w0) = AudioQueueStart 1"
    unfolding tr by (simp add: q)
  have "startupTrace streamEnv = Some (trace w0)"
    by (simp add: startupTrace_def w0)
  then show ?thesis
    using e s l playing_session(1)
    by (simp add: sample_sizes stream_primingReads)
qed

subsection \<open>The run loop\<close>

lemma runLoop_diagnostics:
  "runLoop rd w turns = Some w' \<Longrightarrow> diagnostics (trace w') = diagnostics (trace w)"
proof (induction turns arbitrary: w)
  case Nil
  then show ?case by simp
next
  case (Cons bufs turns)
  let ?w1 = "refills rd (emit [CFRunLoopRunInMode] w) bufs"
  have d: "diagnostics (trace ?w1) = diagnostics (trace w)"
    by (simp add: refills_diagnostics) (simp add: diagnostics_def emit_def)
  show ?case
  proof (cases "mIsRunning (aq ?w1)")
    case True
    then have "runLoop rd ?w1 turns = Some w'" using Cons.prems by (simp add: Let_def)
    then show ?thesis using Cons.IH d by simp
  next
    case False
    then have "w' = ?w1" using Cons.prems by (simp add: Let_def)
    then show ?thesis using d by simp
  qed
qed

text \<open>The loop ends with the first turn that leaves the session stopped.\<close>

lemma runLoop_stops:
  "runLoop rd w turns = Some w' \<Longrightarrow> \<not> mIsRunning (aq w')"
  by (induction turns arbitrary: w) (auto simp add: Let_def split: if_splits)

lemma runLoop_not_running:
  "\<not> mIsRunning (aq w) \<Longrightarrow>
     runLoop rd w (bufs # turns) = Some (emit [CFRunLoopRunInMode] w)"
  by (simp add: Let_def refills_not_running emit_def)

subsection \<open>Exit codes\<close>


text \<open>
  How the process ends otherwise. When opening the file reports a status that has a
  \<^verbatim>\<open>case\<close> in \<^verbatim>\<open>PrintResultCodes\<close> and assertions are compiled in, the program prints the
  message of that status and aborts on the failed assertion. When the open passes and
  \<^verbatim>\<open>AudioQueueNewOutput\<close> reports an error, and when it does not, the sizes are defined
  and \<^verbatim>\<open>AudioQueueStart\<close> reports an error, the program writes the line
  \<open>Error: operation (code)\<close> to the error stream and exits with code 1. When none of
  these calls reports an error the program reaches the run loop, and it exits with code 0
  when the run loop ends.
\<close>

lemma main_exit_codes:
  "(map_of PrintResultCodes_cases (openURL_status env) = Some msg \<and> \<not> NDEBUG env \<longrightarrow>
      (\<exists>w. main env = Some (Aborted, w) \<and> Stdout (msg @ newline) [] \<in> set (trace w)))
   \<and> (openPasses env \<and> newOutput_status env \<noteq> noErr \<longrightarrow>
      (\<exists>w. main env = Some (Exit 1, w) \<and>
           last (trace w) = errorLine ''AudioQueueNewOutput '' (newOutput_status env)))
   \<and> (openPasses env \<and> newOutput_status env = noErr \<and>
       DeriveBufferSize (dataFormat env) (packetSizeUpperBound env) (Finite (1 / 2)) =
         Inr (bs, n) \<and>
       start_status env \<noteq> noErr \<longrightarrow>
      (\<exists>w. main env = Some (Exit 1, w) \<and>
           last (trace w) = errorLine ''AudioQueueStart'' (start_status env)))
   \<and> (openPasses env \<and> newOutput_status env = noErr \<and>
       DeriveBufferSize (dataFormat env) (packetSizeUpperBound env) (Finite (1 / 2)) =
         Inr (bs, n) \<and>
       start_status env = noErr \<longrightarrow>
      (\<exists>w0. main_startup env = Inr w0 \<and>
         (\<forall>w1. runLoop (reader env) w0 (callbacks env) = Some w1 \<longrightarrow>
            (\<exists>w. main env = Some (Exit 0, w)))))"
proof (intro conjI impI)
  assume "map_of PrintResultCodes_cases (openURL_status env) = Some msg \<and> \<not> NDEBUG env"
  then obtain w where "AQPlayerState_Initialize env audioFileName initialWorld = Inl (Aborted, w)"
    and "Stdout (msg @ newline) [] \<in> set (trace w)"
    using Initialize_aborts by blast
  then show "\<exists>w. main env = Some (Aborted, w) \<and> Stdout (msg @ newline) [] \<in> set (trace w)"
    by (simp add: main_def main_startup_def and_then_def)
next
  assume "openPasses env \<and> newOutput_status env \<noteq> noErr"
  then obtain w where "AQPlayerState_Initialize env audioFileName initialWorld = Inl (Exit 1, w)"
    and "last (trace w) = errorLine ''AudioQueueNewOutput '' (newOutput_status env)"
    using Initialize_newOutput_fails by blast
  then show "\<exists>w. main env = Some (Exit 1, w) \<and>
           last (trace w) = errorLine ''AudioQueueNewOutput '' (newOutput_status env)"
    by (simp add: main_def main_startup_def and_then_def)
next
  assume "openPasses env \<and> newOutput_status env = noErr \<and>
       DeriveBufferSize (dataFormat env) (packetSizeUpperBound env) (Finite (1 / 2)) =
         Inr (bs, n) \<and>
       start_status env \<noteq> noErr"
  then obtain w where "main_startup env = Inl (Exit 1, w)"
    and "last (trace w) = errorLine ''AudioQueueStart'' (start_status env)"
    using main_startup_start_fails by blast
  then show "\<exists>w. main env = Some (Exit 1, w) \<and>
           last (trace w) = errorLine ''AudioQueueStart'' (start_status env)"
    by (simp add: main_def)
next
  assume "openPasses env \<and> newOutput_status env = noErr \<and>
       DeriveBufferSize (dataFormat env) (packetSizeUpperBound env) (Finite (1 / 2)) =
         Inr (bs, n) \<and>
       start_status env = noErr"
  then obtain w0 where w0: "main_startup env = Inr w0"
    using main_startup_passes by blast
  then show "\<exists>w0. main_startup env = Inr w0 \<and>
         (\<forall>w1. runLoop (reader env) w0 (callbacks env) = Some w1 \<longrightarrow>
            (\<exists>w. main env = Some (Exit 0, w)))"
    by (auto simp add: main_def)
qed

lemma main_exit_codes_examples:
  "map_of PrintResultCodes_cases
     (openURL_status (sampleEnv\<lparr>openURL_status := kAudio_FileNotFoundError\<rparr>)) =
     Some ''File not found''
   \<and> \<not> NDEBUG (sampleEnv\<lparr>openURL_status := kAudio_FileNotFoundError\<rparr>)
   \<and> processOutcome (sampleEnv\<lparr>openURL_status := kAudio_FileNotFoundError\<rparr>) = Some Aborted
   \<and> openPasses sampleEnv
   \<and> processOutcome (sampleEnv\<lparr>newOutput_status := kAudioFileUnsupportedDataFormatError\<rparr>) =
       Some (Exit 1)
   \<and> DeriveBufferSize (dataFormat sampleEnv) (packetSizeUpperBound sampleEnv) (Finite (1 / 2)) =
       Inr (88200, 22050)
   \<and> processOutcome (sampleEnv\<lparr>start_status := - 50\<rparr>) = Some (Exit 1)
   \<and> processOutcome sampleEnv = Some (Exit 0)"
proof -
  let ?e1 = "sampleEnv\<lparr>openURL_status := kAudio_FileNotFoundError\<rparr>"
  let ?e2 = "sampleEnv\<lparr>newOutput_status := kAudioFileUnsupportedDataFormatError\<rparr>"
  let ?e3 = "sampleEnv\<lparr>start_status := - 50\<rparr>"
  have listed: "map_of PrintResultCodes_cases (openURL_status ?e1) = Some ''File not found''"
    by (simp add: not_found_listed)
  have debug: "\<not> NDEBUG ?e1" by (simp add: sampleEnv_def)
  have passes: "openPasses sampleEnv" "openPasses ?e2" "openPasses ?e3"
    by (simp_all add: openPasses_def sampleEnv_def noErr_unlisted)
  have sizes: "DeriveBufferSize (dataFormat sampleEnv) (packetSizeUpperBound sampleEnv)
                 (Finite (1 / 2)) = Inr (88200, 22050)"
    by (simp add: sampleEnv_def pcm_sizes)
  have sizes3: "DeriveBufferSize (dataFormat ?e3) (packetSizeUpperBound ?e3) (Finite (1 / 2)) =
                  Inr (88200, 22050)"
    by (simp add: sampleEnv_def pcm_sizes)
  have ok: "newOutput_status sampleEnv = noErr" "start_status sampleEnv = noErr"
    "newOutput_status ?e3 = noErr"
    by (simp_all add: sampleEnv_def)
  have bad2: "newOutput_status ?e2 \<noteq> noErr"
    by (simp add: kAudioFileUnsupportedDataFormatError_def FourCC_def noErr_def)
  have bad3: "start_status ?e3 \<noteq> noErr"
    by (simp add: noErr_def)
  have "\<exists>w. main ?e1 = Some (Aborted, w)"
    using main_exit_codes[of ?e1 "''File not found''"] listed debug by blast
  then have 1: "processOutcome ?e1 = Some Aborted"
    by (auto simp add: processOutcome_def)
  have "\<exists>w. main ?e2 = Some (Exit 1, w)"
    using main_exit_codes[of ?e2] passes(2) bad2 by blast
  then have 2: "processOutcome ?e2 = Some (Exit 1)"
    by (auto simp add: processOutcome_def)
  have "\<exists>w. main ?e3 = Some (Exit 1, w)"
    using main_exit_codes[of ?e3 _ 88200 22050] passes(3) ok(3) sizes3 bad3 by blast
  then have 3: "processOutcome ?e3 = Some (Exit 1)"
    by (auto simp add: processOutcome_def)
  obtain w0 where s: "main_startup sampleEnv = Inr w0"
    and loop: "\<forall>w1. runLoop (reader sampleEnv) w0 (callbacks sampleEnv) = Some w1 \<longrightarrow>
                 (\<exists>w. main sampleEnv = Some (Exit 0, w))"
    using main_exit_codes[of sampleEnv _ 88200 22050] passes(1) ok(1,2) sizes by blast
  obtain w0' where s': "main_startup sampleEnv = Inr w0'" and r: "\<not> mIsRunning (aq w0')"
    using startup_quiet[of sampleEnv 88200 22050] ok(1,2) sizes
    by (auto simp add: sampleEnv_def noErr_unlisted)
  have "w0' = w0" using s s' by simp
  then have "runLoop (reader sampleEnv) w0 (callbacks sampleEnv) =
               Some (emit [CFRunLoopRunInMode] w0)"
    using r runLoop_not_running[of w0 silentReader "[]" "[]"] by (simp add: sampleEnv_def)
  then have "\<exists>w. main sampleEnv = Some (Exit 0, w)"
    using loop by blast
  then have 4: "processOutcome sampleEnv = Some (Exit 0)"
    by (auto simp add: processOutcome_def)
  show ?thesis
    using listed debug 1 passes(1) 2 sizes 3 4 by blast
qed

text \<open>
  Normal completion on a source that is not empty. With the source of 100000 packets,
  priming reads 66150 packets; in the first turn of the run loop the sink gives back two
  buffers, which take the 33850 packets that are left; in the second turn the refill of the
  third buffer obtains nothing and stops the session. The run loop ends with the cursor at
  the end of the source and the process exits with code 0.
\<close>

lemma play_primed:
  "aq (AQPlayerState_AllocateBuffersAndPrime playEnv playingWorld) =
     (aq playingWorld)\<lparr>mBuffers := [10, 11, 12], mCurrentPacket := 66150\<rparr>"
proof -
  have len: "length (mBuffers (aq (playingWorld\<lparr>aq := (aq playingWorld)\<lparr>mCurrentPacket := 0\<rparr>\<rparr>))) =
               kNumberBuffers"
    by (simp add: playing_fields)
  have l: "(replicate 3 NULL)[0 := 10, Suc 0 := 11, 2 := 12] = [10, 11, 12]"
    by (simp add: numeral_3_eq_3 numeral_2_eq_2)
  show ?thesis
    unfolding AQPlayerState_AllocateBuffersAndPrime_def prime_unroll[OF len]
    by (simp add: primeStep_def HandleOutputBuffer_aq AllocateBuffer_k_def Let_def emit_def
        readPackets_def mockReader_def playEnv_def sampleEnv_def playingWorld_def
        initialWorld_def kNumberBuffers_def l)
qed

lemma play_runLoop:
  assumes "aq w = (aq playingWorld)\<lparr>mBuffers := [10, 11, 12], mCurrentPacket := 66150\<rparr>"
  shows "\<exists>w1. runLoop (mockReader 100000 4) w [[10, 11], [12]] = Some w1
              \<and> sint (mCurrentPacket (aq w1)) = 100000"
  using assms
  by (simp add: Let_def HandleOutputBuffer_aq emit_def readPackets_def mockReader_def
      playing_fields)

lemma play_outcome:
  "processOutcome playEnv = Some (Exit 0) \<and> processDiagnostics playEnv = Some []"
proof -
  obtain w0 where w0: "main_startup playEnv = Inr w0"
    using sample_startups(3) by blast
  from startup_reaches_priming[OF w0] obtain w bs n where
    sizes: "DeriveBufferSize (dataFormat playEnv) (packetSizeUpperBound playEnv)
              (Finite (1 / 2)) = Inr (bs, n)"
    and session: "aq w = sessionAtPriming playEnv bs n"
    and a0: "aq w0 = aq (AQPlayerState_AllocateBuffersAndPrime playEnv w)"
    by blast
  have "bs = 88200 \<and> n = 22050" using sizes by (simp add: sample_sizes)
  then have "aq w = sessionAtPriming playEnv 88200 22050" using session by simp
  then have eq: "aq w = aq playingWorld" by (simp only: playing_session(3))
  have "aq w0 = aq (AQPlayerState_AllocateBuffersAndPrime playEnv playingWorld)"
    unfolding a0 using eq by (rule prime_aq_cong) (simp add: eq playing_fields)
  then have "aq w0 = (aq playingWorld)\<lparr>mBuffers := [10, 11, 12], mCurrentPacket := 66150\<rparr>"
    by (simp only: play_primed)
  then obtain w1 where loop: "runLoop (mockReader 100000 4) w0 [[10, 11], [12]] = Some w1"
    using play_runLoop by blast
  have e: "reader playEnv = mockReader 100000 4" "callbacks playEnv = [[10, 11], [12]]"
    by (simp_all add: playEnv_def sampleEnv_def)
  have m: "main playEnv =
             Some (Exit 0, AQPlayerState_CleanUp (emit [CFRunLoopRunInMode] w1))"
    using w0 loop by (simp add: main_def e)
  have "map_of PrintResultCodes_cases (openURL_status playEnv) = None"
    "newOutput_status playEnv = noErr" "start_status playEnv = noErr"
    by (simp_all add: playEnv_def sampleEnv_def noErr_unlisted)
  then have "diagnostics (trace w0) = []"
    using startup_quiet[of playEnv 88200 22050] w0 by (auto simp add: sample_sizes)
  then have "diagnostics (trace w1) = []"
    using runLoop_diagnostics[OF loop] by simp
  then show ?thesis
    using m by (simp add: processOutcome_def processDiagnostics_def AQPlayerState_CleanUp_def
        emit_def diagnostics_def)
qed

end
